theory Spec2Isabelle
  imports Main "HOL-Library.Sublist" "HOL-Library.Multiset"
begin

section \<open>Values, exceptions and the Python operations the code relies on\<close>

text \<open>
  The transform stages return parsed JSON, and the endpoint code works on these values
  with Python's dynamically typed operations. A JSON object is an association list in
  insertion order (keys are unique in a Python dict); JSON numbers are modelled as
  integers, strings as byte strings (the ASCII range is what the code inspects).
\<close>

datatype json =
    JNull
  | JBool bool
  | JInt int
  | JStr string
  | JList "json list"
  | JDict "(string \<times> json) list"

text \<open>
  Exceptions are values. \<open>HTTPException\<close> carries the status code and the detail
  message; \<open>AttributeError\<close> and \<open>TypeError\<close> are what Python raises on an
  operation the value does not support; \<open>LibraryError\<close> stands for an exception
  raised inside a document reader.
\<close>

datatype error =
    HTTPException nat string
  | AttributeError
  | TypeError
  | LibraryError string

definition and_then :: "error + 'a \<Rightarrow> ('a \<Rightarrow> error + 'b) \<Rightarrow> error + 'b" where
  "and_then r f = (case r of Inl e \<Rightarrow> Inl e | Inr v \<Rightarrow> f v)"

fun map_result :: "('a \<Rightarrow> error + 'b) \<Rightarrow> 'a list \<Rightarrow> error + 'b list" where
  "map_result f [] = Inr []"
| "map_result f (x # xs) =
     and_then (f x) (\<lambda>y. and_then (map_result f xs) (\<lambda>ys. Inr (y # ys)))"

text \<open>A dict display evaluates its values in order; the first exception escapes.\<close>

fun dict_display :: "(string \<times> (error + json)) list \<Rightarrow> error + (string \<times> json) list" where
  "dict_display [] = Inr []"
| "dict_display ((k, r) # rest) =
     and_then r (\<lambda>v. and_then (dict_display rest) (\<lambda>kvs. Inr ((k, v) # kvs)))"

definition py_dict :: "(string \<times> (error + json)) list \<Rightarrow> error + json" where
  "py_dict fields = and_then (dict_display fields) (\<lambda>kvs. Inr (JDict kvs))"

subsection \<open>Numbers, truth values, containers\<close>

text \<open>\<open>bool\<close> is a subclass of \<open>int\<close> in Python: \<open>True + 10\<close> is \<open>11\<close>.\<close>

fun py_num :: "json \<Rightarrow> int option" where
  "py_num (JInt n) = Some n"
| "py_num (JBool b) = Some (if b then 1 else 0)"
| "py_num v = None"

fun py_add :: "json \<Rightarrow> json \<Rightarrow> error + json" where
  "py_add (JList a) (JList b) = Inr (JList (a @ b))"
| "py_add (JStr a) (JStr b) = Inr (JStr (a @ b))"
| "py_add a b =
     (case py_num a of
        None \<Rightarrow> Inl TypeError
      | Some m \<Rightarrow> (case py_num b of None \<Rightarrow> Inl TypeError | Some n \<Rightarrow> Inr (JInt (m + n))))"

definition py_sub :: "json \<Rightarrow> json \<Rightarrow> error + json" where
  "py_sub a b =
     (case py_num a of
        None \<Rightarrow> Inl TypeError
      | Some m \<Rightarrow> (case py_num b of None \<Rightarrow> Inl TypeError | Some n \<Rightarrow> Inr (JInt (m - n))))"

definition py_lt :: "json \<Rightarrow> json \<Rightarrow> error + bool" where
  "py_lt a b =
     (case py_num a of
        None \<Rightarrow> Inl TypeError
      | Some m \<Rightarrow> (case py_num b of None \<Rightarrow> Inl TypeError | Some n \<Rightarrow> Inr (m < n)))"

text \<open>\<open>max(0, y)\<close> for an integer \<open>y\<close>; the code applies it to a difference only.\<close>

definition py_max0 :: "json \<Rightarrow> error + json" where
  "py_max0 y = (case py_num y of None \<Rightarrow> Inl TypeError | Some n \<Rightarrow> Inr (if 0 < n then y else JInt 0))"

fun py_truthy :: "json \<Rightarrow> bool" where
  "py_truthy JNull = False"
| "py_truthy (JBool b) = b"
| "py_truthy (JInt n) = (n \<noteq> 0)"
| "py_truthy (JStr s) = (s \<noteq> [])"
| "py_truthy (JList xs) = (xs \<noteq> [])"
| "py_truthy (JDict kvs) = (kvs \<noteq> [])"

definition py_or :: "json \<Rightarrow> json \<Rightarrow> json" where
  "py_or a b = (if py_truthy a then a else b)"

fun py_len :: "json \<Rightarrow> error + nat" where
  "py_len (JStr s) = Inr (length s)"
| "py_len (JList xs) = Inr (length xs)"
| "py_len (JDict kvs) = Inr (length kvs)"
| "py_len v = Inl TypeError"

text \<open>Iteration: a list gives its elements, a string its characters, a dict its keys.\<close>

fun py_iter :: "json \<Rightarrow> error + json list" where
  "py_iter (JList xs) = Inr xs"
| "py_iter (JStr s) = Inr (map (\<lambda>c. JStr [c]) s)"
| "py_iter (JDict kvs) = Inr (map (\<lambda>kv. JStr (fst kv)) kvs)"
| "py_iter v = Inl TypeError"

fun is_list :: "json \<Rightarrow> bool" where
  "is_list (JList xs) = True"
| "is_list v = False"

fun is_dict :: "json \<Rightarrow> bool" where
  "is_dict (JDict kvs) = True"
| "is_dict v = False"

text \<open>
  \<open>d.get(k, default)\<close>: only a dict has the method. The default is an argument, so the
  caller has evaluated it before the call (see \<open>estimated_new_ats_score\<close> below).
\<close>

fun py_get :: "json \<Rightarrow> string \<Rightarrow> json \<Rightarrow> error + json" where
  "py_get (JDict kvs) k dflt = Inr (case map_of kvs k of Some v \<Rightarrow> v | None \<Rightarrow> dflt)"
| "py_get v k dflt = Inl AttributeError"

subsection \<open>Sets of hashable values\<close>

text \<open>
  \<open>set(xs)\<close> raises \<open>TypeError\<close> on a list or dict element. Equal elements are kept once,
  the first one inserted; \<open>1 == True\<close> and \<open>0 == False\<close> in Python. The iteration order
  of a set is not specified: \<open>list(set(xs))\<close> is determined up to an ordering only, which
  the model takes as a parameter where the code builds the list.
\<close>

fun py_hashable :: "json \<Rightarrow> bool" where
  "py_hashable (JList xs) = False"
| "py_hashable (JDict kvs) = False"
| "py_hashable v = True"

definition py_eq :: "json \<Rightarrow> json \<Rightarrow> bool" where
  "py_eq a b =
     (case py_num a of
        Some m \<Rightarrow> (case py_num b of Some n \<Rightarrow> m = n | None \<Rightarrow> False)
      | None \<Rightarrow> a = b)"

definition set_add :: "json list \<Rightarrow> json \<Rightarrow> json list" where
  "set_add seen x = (if list_ex (py_eq x) seen then seen else seen @ [x])"

definition py_set :: "json list \<Rightarrow> error + json list" where
  "py_set xs = (if list_all py_hashable xs then Inr (foldl set_add [] xs) else Inl TypeError)"

subsection \<open>Strings\<close>

definition lower_char :: "char \<Rightarrow> char" where
  "lower_char c =
     (case map_of (zip ''ABCDEFGHIJKLMNOPQRSTUVWXYZ'' ''abcdefghijklmnopqrstuvwxyz'') c of
        Some d \<Rightarrow> d
      | None \<Rightarrow> c)"

definition py_lower :: "string \<Rightarrow> string" where
  "py_lower s = map lower_char s"

definition is_space :: "char \<Rightarrow> bool" where
  "is_space c \<longleftrightarrow>
     c \<in> set [CHR 0x09, CHR 0x0A, CHR 0x0B, CHR 0x0C, CHR 0x0D,
               CHR 0x1C, CHR 0x1D, CHR 0x1E, CHR 0x1F, CHR 0x20]"

definition py_strip :: "string \<Rightarrow> string" where
  "py_strip s = rev (dropWhile is_space (rev (dropWhile is_space s)))"

text \<open>\<open>s.split(c)\<close>: never empty, the last piece is what follows the last separator.\<close>

fun split_on :: "char \<Rightarrow> string \<Rightarrow> string list" where
  "split_on c [] = [[]]"
| "split_on c (x # xs) =
     (if x = c then [] # split_on c xs
      else (case split_on c xs of
              [] \<Rightarrow> [[x]]
            | w # ws \<Rightarrow> (x # w) # ws))"

text \<open>\<open>needle in haystack\<close> on strings is contiguous containment.\<close>

definition py_in :: "string \<Rightarrow> string \<Rightarrow> bool" where
  "py_in needle haystack = sublist needle haystack"

fun py_join :: "string \<Rightarrow> string list \<Rightarrow> string" where
  "py_join sep [] = []"
| "py_join sep [x] = x"
| "py_join sep (x # y # ys) = x @ sep @ py_join sep (y # ys)"

fun string_of_nat :: "nat \<Rightarrow> string" where
  "string_of_nat n =
     (if n < 10 then [''0123456789'' ! n]
      else string_of_nat (n div 10) @ [''0123456789'' ! (n mod 10)])"

definition py_str_int :: "int \<Rightarrow> string" where
  "py_str_int n = (if n < 0 then CHR ''-'' # string_of_nat (nat (- n)) else string_of_nat (nat n))"

text \<open>
  \<open>str(v)\<close> as an f-string prints it. The code formats scores only on the path where the
  subtraction of the two scores has succeeded, so both are numbers there; the text of a
  formatted list or dict is not modelled.
\<close>

fun py_str :: "json \<Rightarrow> string" where
  "py_str JNull = ''None''"
| "py_str (JBool b) = (if b then ''True'' else ''False'')"
| "py_str (JInt n) = py_str_int n"
| "py_str (JStr s) = s"
| "py_str (JList xs) = []"
| "py_str (JDict kvs) = []"

text \<open>\<open>xs[:limit]\<close>: a negative limit counts from the end.\<close>

definition py_slice_to :: "'a list \<Rightarrow> int \<Rightarrow> 'a list" where
  "py_slice_to xs limit =
     (if limit < 0 then take (nat (int (length xs) + limit)) xs else take (nat limit) xs)"

section \<open>Helper functions of the service\<close>

subsection \<open>\<open>extract_text_from_file\<close>\<close>

text \<open>
  The uploaded file is its declared name and the bytes that reading it gives. The two document readers are
  libraries: \<open>fitz_pages\<close> opens a PDF stream and gives the text of each page in page
  order, \<open>docx_paragraphs\<close> opens a DOCX package and gives the text of each paragraph;
  either may raise on bytes it cannot read.
\<close>

record upload_file =
  filename :: string
  file_read :: "nat list"

definition file_extension :: "upload_file \<Rightarrow> string" where
  "file_extension uploaded_file = py_lower (last (split_on CHR ''.'' (filename uploaded_file)))"

definition extract_text_from_file ::
  "(nat list \<Rightarrow> error + string list) \<Rightarrow> (nat list \<Rightarrow> error + string list) \<Rightarrow>
   upload_file \<Rightarrow> error + string" where
  "extract_text_from_file fitz_pages docx_paragraphs uploaded_file =
     (let file_bytes = file_read uploaded_file;
          ext = file_extension uploaded_file
      in if ext = ''pdf'' then
           and_then (fitz_pages file_bytes)
             (\<lambda>pages. Inr (py_strip (foldl (\<lambda>text page. text @ page) [] pages)))
         else if ext \<in> set [''docx'', ''doc''] then
           and_then (docx_paragraphs file_bytes)
             (\<lambda>paras. Inr (py_strip (py_join [CHR 0x0A] paras)))
         else Inl (HTTPException 400 (''Unsupported file format: '' @ ext)))"

subsection \<open>\<open>detect_language\<close>\<close>

text \<open>
  The classifier \<open>detect\<close> of the language-detection library returns a language code or
  raises its \<open>LangDetectException\<close>.
\<close>

datatype detect_result = LangDetectException | Lang string

definition detect_language :: "(string \<Rightarrow> detect_result) \<Rightarrow> string \<Rightarrow> string" where
  "detect_language detect text =
     (case detect text of
        Lang lang \<Rightarrow> (if lang \<in> set [''en'', ''de'', ''ar''] then lang else ''en'')
      | LangDetectException \<Rightarrow> ''en'')"

subsection \<open>\<open>filter_null_values\<close>\<close>

fun filter_null_values :: "json \<Rightarrow> json" where
  "filter_null_values (JDict kvs) =
     JDict (map (\<lambda>(k, v). (k, filter_null_values v))
              (filter (\<lambda>(k, v). v \<noteq> JNull \<and> v \<noteq> JStr [] \<and> v \<noteq> JList []) kvs))"
| "filter_null_values (JList xs) =
     JList (map filter_null_values
              (filter (\<lambda>item. item \<noteq> JNull \<and> item \<noteq> JStr [] \<and> item \<noteq> JDict []) xs))"
| "filter_null_values v = v"

text \<open>
  Properties of a sanitized value, at every depth. \<open>no_null_survives\<close>: no mapping value
  and no sequence element is null or the empty string. \<open>no_empty_survives\<close>: nor is any of
  them the empty sequence. \<open>no_emptied\<close>: no mapping value is the empty sequence and no
  sequence element is the empty mapping, which are the two things a second pass removes.
\<close>

fun no_null_survives :: "json \<Rightarrow> bool" where
  "no_null_survives (JDict kvs) =
     (\<forall>(k, v) \<in> set kvs. v \<noteq> JNull \<and> v \<noteq> JStr [] \<and> no_null_survives v)"
| "no_null_survives (JList xs) =
     (\<forall>v \<in> set xs. v \<noteq> JNull \<and> v \<noteq> JStr [] \<and> no_null_survives v)"
| "no_null_survives v = True"

fun no_empty_survives :: "json \<Rightarrow> bool" where
  "no_empty_survives (JDict kvs) =
     (\<forall>(k, v) \<in> set kvs.
        v \<noteq> JNull \<and> v \<noteq> JStr [] \<and> v \<noteq> JList [] \<and> no_empty_survives v)"
| "no_empty_survives (JList xs) =
     (\<forall>v \<in> set xs.
        v \<noteq> JNull \<and> v \<noteq> JStr [] \<and> v \<noteq> JList [] \<and> no_empty_survives v)"
| "no_empty_survives v = True"

fun no_emptied :: "json \<Rightarrow> bool" where
  "no_emptied (JDict kvs) = (\<forall>(k, v) \<in> set kvs. v \<noteq> JList [] \<and> no_emptied v)"
| "no_emptied (JList xs) = (\<forall>v \<in> set xs. v \<noteq> JDict [] \<and> no_emptied v)"
| "no_emptied v = True"

section \<open>The analyze-and-rewrite operation\<close>

definition quoted :: "string \<Rightarrow> string" where
  "quoted s = CHR 0x27 # s @ [CHR 0x27]"

subsection \<open>Validation of the social links\<close>

text \<open>
  The endpoint validates the seven optional links one after the other, each with a block
  of the same form:
  \<^verbatim>\<open>
    if github and github.strip():
        if "github.com" not in github.lower():
            raise HTTPException(status_code=400, detail="Invalid GitHub URL. ...")
        social_links_data["github"] = github.strip()
  \<close>
  \<open>link_block\<close> is that block: the key, the supplied value, the outcome of the test on the
  lower-cased value, the detail of the exception, and the map built so far.
\<close>

definition link_block ::
  "string \<Rightarrow> string \<Rightarrow> bool \<Rightarrow> string \<Rightarrow> (string \<times> string) list \<Rightarrow>
   error + (string \<times> string) list" where
  "link_block key v accepted detail social_links_data =
     (if v \<noteq> [] \<and> py_strip v \<noteq> [] then
        (if \<not> accepted then Inl (HTTPException 400 detail)
         else Inr (social_links_data @ [(key, py_strip v)]))
      else Inr social_links_data)"

definition portfolio_indicators :: "string list" where
  "portfolio_indicators = [''http'', ''.com'', ''.io'', ''.dev'', ''.net'', ''.org'']"

definition twitter_domains :: "string list" where
  "twitter_domains = [''twitter.com'', ''x.com'']"

definition validate_social_links ::
  "string \<Rightarrow> string \<Rightarrow> string \<Rightarrow> string \<Rightarrow> string \<Rightarrow> string \<Rightarrow> string \<Rightarrow>
   error + (string \<times> string) list" where
  "validate_social_links github linkedin kaggle portfolio stackoverflow medium twitter =
     and_then (link_block ''github'' github (py_in ''github.com'' (py_lower github))
                 (''Invalid GitHub URL. Must contain '' @ quoted ''github.com'') [])
    (\<lambda>d1. and_then (link_block ''linkedin'' linkedin (py_in ''linkedin.com'' (py_lower linkedin))
                 (''Invalid LinkedIn URL. Must contain '' @ quoted ''linkedin.com'') d1)
    (\<lambda>d2. and_then (link_block ''kaggle'' kaggle (py_in ''kaggle.com'' (py_lower kaggle))
                 (''Invalid Kaggle URL. Must contain '' @ quoted ''kaggle.com'') d2)
    (\<lambda>d3. and_then (link_block ''portfolio'' portfolio
                 (list_ex (\<lambda>x. py_in x (py_lower portfolio)) portfolio_indicators)
                 ''Invalid Portfolio URL. Must be a valid URL'' d3)
    (\<lambda>d4. and_then (link_block ''stackoverflow'' stackoverflow
                 (py_in ''stackoverflow.com'' (py_lower stackoverflow))
                 (''Invalid Stack Overflow URL. Must contain '' @ quoted ''stackoverflow.com'') d4)
    (\<lambda>d5. and_then (link_block ''medium'' medium (py_in ''medium.com'' (py_lower medium))
                 (''Invalid Medium URL. Must contain '' @ quoted ''medium.com'') d5)
    (\<lambda>d6. link_block ''twitter'' twitter
                 (list_ex (\<lambda>x. py_in x (py_lower twitter)) twitter_domains)
                 (''Invalid Twitter URL. Must contain '' @ quoted ''twitter.com''
                    @ '' or '' @ quoted ''x.com'') d6))))))"

text \<open>
  The same seven rules as a table, for stating what the validation computes: key,
  supplied value, whether the lower-cased value passes the platform's test, detail.
\<close>

definition link_supplied :: "string \<Rightarrow> bool" where
  "link_supplied v \<longleftrightarrow> v \<noteq> [] \<and> py_strip v \<noteq> []"

definition link_rules ::
  "string \<Rightarrow> string \<Rightarrow> string \<Rightarrow> string \<Rightarrow> string \<Rightarrow> string \<Rightarrow> string \<Rightarrow>
   (string \<times> string \<times> bool \<times> string) list" where
  "link_rules github linkedin kaggle portfolio stackoverflow medium twitter =
     [(''github'', github, py_in ''github.com'' (py_lower github),
         ''Invalid GitHub URL. Must contain '' @ quoted ''github.com''),
      (''linkedin'', linkedin, py_in ''linkedin.com'' (py_lower linkedin),
         ''Invalid LinkedIn URL. Must contain '' @ quoted ''linkedin.com''),
      (''kaggle'', kaggle, py_in ''kaggle.com'' (py_lower kaggle),
         ''Invalid Kaggle URL. Must contain '' @ quoted ''kaggle.com''),
      (''portfolio'', portfolio,
         list_ex (\<lambda>x. py_in x (py_lower portfolio)) portfolio_indicators,
         ''Invalid Portfolio URL. Must be a valid URL''),
      (''stackoverflow'', stackoverflow, py_in ''stackoverflow.com'' (py_lower stackoverflow),
         ''Invalid Stack Overflow URL. Must contain '' @ quoted ''stackoverflow.com''),
      (''medium'', medium, py_in ''medium.com'' (py_lower medium),
         ''Invalid Medium URL. Must contain '' @ quoted ''medium.com''),
      (''twitter'', twitter,
         list_ex (\<lambda>x. py_in x (py_lower twitter)) twitter_domains,
         ''Invalid Twitter URL. Must contain '' @ quoted ''twitter.com''
            @ '' or '' @ quoted ''x.com'')]"

definition link_rejected :: "string \<times> string \<times> bool \<times> string \<Rightarrow> bool" where
  "link_rejected rule = (case rule of (key, v, ok, detail) \<Rightarrow> link_supplied v \<and> \<not> ok)"

definition link_entries :: "(string \<times> string \<times> bool \<times> string) list \<Rightarrow> (string \<times> string) list" where
  "link_entries rules =
     map (\<lambda>rule. (fst rule, py_strip (fst (snd rule))))
       (filter (\<lambda>rule. link_supplied (fst (snd rule))) rules)"

text \<open>Running the blocks of a table in order, from the map built so far.\<close>

fun apply_rules ::
  "(string \<times> string \<times> bool \<times> string) list \<Rightarrow> (string \<times> string) list \<Rightarrow>
   error + (string \<times> string) list" where
  "apply_rules [] social_links_data = Inr social_links_data"
| "apply_rules ((key, v, ok, detail) # rules) social_links_data =
     and_then (link_block key v ok detail social_links_data) (\<lambda>d. apply_rules rules d)"

subsection \<open>Assembly of the response\<close>

text \<open>
  The last part of the endpoint (from \<open># Calculate improvements\<close> to \<open>return response\<close>)
  reads the outputs of the six transform stages, which are whatever JSON the stages gave
  back. Its inputs are those six values, the detected and the requested language, and the
  validated link map. \<open>set_order\<close> is the order in which the set of combined skills is
  listed.
\<close>

definition lang_names :: "(string \<times> string) list" where
  "lang_names = [(''en'', ''English''), (''de'', ''German''), (''ar'', ''Arabic'')]"

definition lang_name :: "string \<Rightarrow> string" where
  "lang_name l = (case map_of lang_names l of Some n \<Rightarrow> n | None \<Rightarrow> l)"

text \<open>
  \<open>rewritten_data.get("estimated_new_ats_score", default)\<close>: the method is looked up
  first, then the default is computed (it is \<open>original_ats + 10\<close>, which raises on a score
  that is not a number, whether or not the key is there), then the call is made.
\<close>

definition get_estimated :: "json \<Rightarrow> error + json \<Rightarrow> error + json" where
  "get_estimated rewritten_data dflt =
     (if is_dict rewritten_data then
        and_then dflt (\<lambda>d. py_get rewritten_data ''estimated_new_ats_score'' d)
      else Inl AttributeError)"

definition combined_skills :: "(json list \<Rightarrow> json list) \<Rightarrow> json \<Rightarrow> json \<Rightarrow> error + json list" where
  "combined_skills set_order parsed_data_dict suggested_skills =
     and_then (py_get parsed_data_dict ''skills'' (JList []))
    (\<lambda>skills. and_then (py_add skills (if is_list suggested_skills then suggested_skills else JList []))
    (\<lambda>both. and_then (py_iter both)
    (\<lambda>items. and_then (py_set items)
    (\<lambda>members. Inr (set_order members)))))"

definition improvements_made ::
  "json \<Rightarrow> json \<Rightarrow> json \<Rightarrow> json \<Rightarrow> string \<Rightarrow> string \<Rightarrow> error + json list" where
  "improvements_made rewritten_data suggested_skills original_ats improved_ats
       input_language output_language =
     and_then (and_then (py_get rewritten_data ''rewritten_experience'' (JList [])) py_len)
    (\<lambda>n_experience. and_then (py_sub improved_ats original_ats)
    (\<lambda>delta. Inr (
       (if input_language \<noteq> output_language then
          [JStr (''Translated CV from '' @ lang_name input_language @ '' to ''
                   @ lang_name output_language)]
        else [])
       @ [JStr ''Improved professional summary with strong action verbs and context'',
          JStr (''Enhanced '' @ py_str_int (int n_experience)
                  @ '' experience descriptions with impact and scope'')]
       @ (case suggested_skills of
            JList xs \<Rightarrow>
              (if length xs > 0 then
                 [JStr (''Added '' @ py_str_int (int (length xs))
                          @ '' suggested skills based on experience'')]
               else [])
          | _ \<Rightarrow> [])
       @ [JStr (''Improved ATS compliance from '' @ py_str original_ats @ ''% to ''
                  @ py_str improved_ats @ ''% (+'' @ py_str delta @ ''%)''),
          JStr ''Applied industry-specific keywords and professional terminology''])))"

definition arrow :: string where
  "arrow = [CHR 0xE2, CHR 0x86, CHR 0x92]"

definition missing_for_90_percent :: json where
  "missing_for_90_percent = JList
     [JStr ''Quantifiable metrics (e.g., 'Improved efficiency by 30%', 'Managed team of 5 engineers')'',
      JStr ''Specific numbers (e.g., 'Served 10,000+ users daily', 'Generated $2M in revenue')'',
      JStr ''Measurable achievements (e.g., 'Reduced costs by 25%', 'Increased customer satisfaction by 40%')'',
      JStr ''Project scope details (e.g., 'Led 3 major projects over 6 months', 'Delivered to 50+ clients')'']"

definition recommendation_below_90 :: json where
  "recommendation_below_90 = JStr (''To reach 90% ATS score, please add specific quantifiable metrics to your achievements. ''
     @ ''Without concrete numbers, we can improve your CV to ~75-80% ATS compliance through better language, structure, and keywords. ''
     @ ''For 85-90%, you'll need to provide measurable results from your work experience.'')"

definition recommendation_reached :: json where
  "recommendation_reached = JStr ''Excellent! Your CV meets high ATS standards.''"

definition examples_below_90 :: json where
  "examples_below_90 = JList
     [JStr (''Instead of: 'Worked on projects' '' @ arrow
              @ '' Use: 'Led 5 cross-functional projects serving 50,000+ users'' @ [CHR 0x27]),
      JStr (''Instead of: 'Improved processes' '' @ arrow
              @ '' Use: 'Optimized workflow processes, reducing processing time by 35%'' @ [CHR 0x27]),
      JStr (''Instead of: 'Managed team' '' @ arrow
              @ '' Use: 'Managed team of 8 engineers, delivering 12 features in 6 months'' @ [CHR 0x27])]"

definition check_record :: "json \<Rightarrow> error + json" where
  "check_record check_item =
     py_dict [(''item'', py_get check_item ''item'' (JStr [])),
              (''status'', py_get check_item ''status'' (JStr [])),
              (''details'', py_get check_item ''details'' (JStr []))]"

definition check_records :: "json \<Rightarrow> string \<Rightarrow> error + json" where
  "check_records ats_data key =
     and_then (py_get ats_data key (JList []))
    (\<lambda>checks. and_then (py_iter checks)
    (\<lambda>items. and_then (map_result check_record items)
    (\<lambda>records. Inr (JList records))))"

definition get_or_empty :: "json \<Rightarrow> string \<Rightarrow> error + json" where
  "get_or_empty d k = and_then (py_get d k JNull) (\<lambda>v. Inr (py_or v (JStr [])))"

definition notes_estimate :: "json \<Rightarrow> json \<Rightarrow> error + json" where
  "notes_estimate rewritten_data ats_data =
     get_estimated rewritten_data
       (and_then (py_get ats_data ''overall_score'' (JInt 0)) (\<lambda>score. py_add score (JInt 10)))"

definition below_90 :: "json \<Rightarrow> json \<Rightarrow> json \<Rightarrow> json \<Rightarrow> error + json" where
  "below_90 rewritten_data ats_data yes no =
     and_then (notes_estimate rewritten_data ats_data)
    (\<lambda>estimate. and_then (py_lt estimate (JInt 90))
    (\<lambda>b. Inr (if b then yes else no)))"

text \<open>The six nested dicts of the response, in the order the dict display builds them.\<close>

definition final_cv ::
  "json \<Rightarrow> json \<Rightarrow> json list \<Rightarrow> (string \<times> string) list \<Rightarrow> error + json" where
  "final_cv parsed_data_dict rewritten_data skills social_links_data =
     py_dict
       [(''name'', get_or_empty parsed_data_dict ''name''),
        (''email'', get_or_empty parsed_data_dict ''email''),
        (''phone'', get_or_empty parsed_data_dict ''phone''),
        (''address'', get_or_empty parsed_data_dict ''address''),
        (''summary'', py_get rewritten_data ''rewritten_summary'' (JStr [])),
        (''skills'', Inr (JList skills)),
        (''experience'', py_get rewritten_data ''rewritten_experience'' (JList [])),
        (''education'', py_get parsed_data_dict ''education'' (JList [])),
        (''projects'', py_get parsed_data_dict ''projects'' (JList [])),
        (''languages'', py_get parsed_data_dict ''languages'' (JList [])),
        (''hobbies'', py_get parsed_data_dict ''hobbies'' (JList [])),
        (''social_links'',
           Inr (JDict (map (\<lambda>kv. (fst kv, JStr (snd kv))) social_links_data)))]"

definition career_recommendation :: "json \<Rightarrow> error + json" where
  "career_recommendation career_data =
     py_dict
       [(''recommended_career'', py_get career_data ''recommended_career'' (JStr ''Unknown'')),
        (''confidence'', py_get career_data ''confidence'' (JInt 0)),
        (''reasoning'', py_get career_data ''reasoning'' (JStr [])),
        (''alternative_careers'', py_get career_data ''alternative_careers'' (JList []))]"

definition improvements_summary ::
  "json \<Rightarrow> json \<Rightarrow> json list \<Rightarrow> string \<Rightarrow> string \<Rightarrow> error + json" where
  "improvements_summary original_ats improved_ats improvements input_language output_language =
     py_dict
       [(''ats_score_before'', Inr original_ats),
        (''ats_score_after'', Inr improved_ats),
        (''improvements_made'', Inr (JList improvements)),
        (''translation_applied'', Inr (JBool (input_language \<noteq> output_language))),
        (''input_language'', Inr (JStr input_language)),
        (''output_language'', Inr (JStr output_language))]"

definition improvement_notes :: "json \<Rightarrow> json \<Rightarrow> error + json" where
  "improvement_notes rewritten_data ats_data =
     py_dict
       [(''original_ats_score'', py_get ats_data ''overall_score'' (JInt 0)),
        (''improved_ats_score'', notes_estimate rewritten_data ats_data),
        (''target_ats_score'', Inr (JInt 90)),
        (''gap_to_target'',
           and_then (notes_estimate rewritten_data ats_data)
             (\<lambda>estimate. and_then (py_sub (JInt 90) estimate) py_max0)),
        (''missing_for_90_percent'',
           below_90 rewritten_data ats_data missing_for_90_percent (JList [])),
        (''recommendation'',
           below_90 rewritten_data ats_data recommendation_below_90 recommendation_reached),
        (''examples'', below_90 rewritten_data ats_data examples_below_90 (JList []))]"

definition quality_report :: "json \<Rightarrow> error + json" where
  "quality_report quality_data =
     py_dict
       [(''overall_score'', py_get quality_data ''overall_score'' (JInt 0)),
        (''strengths'', py_get quality_data ''strengths'' (JList [])),
        (''weaknesses'', py_get quality_data ''weaknesses'' (JList [])),
        (''suggestions'', py_get quality_data ''suggestions'' (JList []))]"

definition ats_compliance :: "json \<Rightarrow> error + json" where
  "ats_compliance ats_data =
     py_dict
       [(''overall_score'', py_get ats_data ''overall_score'' (JInt 0)),
        (''passed_checks'', check_records ats_data ''passed_checks''),
        (''failed_checks'', check_records ats_data ''failed_checks''),
        (''critical_issues'', py_get ats_data ''critical_issues'' (JList [])),
        (''recommendations'', py_get ats_data ''recommendations'' (JList []))]"

definition assemble_response ::
  "(json list \<Rightarrow> json list) \<Rightarrow> json \<Rightarrow> json \<Rightarrow> json \<Rightarrow> json \<Rightarrow> json \<Rightarrow> json \<Rightarrow>
   string \<Rightarrow> string \<Rightarrow> (string \<times> string) list \<Rightarrow> error + json" where
  "assemble_response set_order parsed_data_dict quality_data ats_data suggested_skills
       career_data rewritten_data input_language output_language social_links_data =
     and_then (py_get ats_data ''overall_score'' (JInt 0))
    (\<lambda>original_ats. and_then (get_estimated rewritten_data (py_add original_ats (JInt 10)))
    (\<lambda>improved_ats. and_then (combined_skills set_order parsed_data_dict suggested_skills)
    (\<lambda>skills. and_then (improvements_made rewritten_data suggested_skills original_ats
                            improved_ats input_language output_language)
    (\<lambda>improvements.
       py_dict
        [(''final_cv'', final_cv parsed_data_dict rewritten_data skills social_links_data),
         (''career_recommendation'', career_recommendation career_data),
         (''improvements_summary'',
            improvements_summary original_ats improved_ats improvements
              input_language output_language),
         (''improvement_notes'', improvement_notes rewritten_data ats_data),
         (''quality_report'', quality_report quality_data),
         (''ats_compliance'', ats_compliance ats_data)]))))"

text \<open>Reading a field of the response: \<open>response[k1][k2]\<close>.\<close>

fun lookup :: "json \<Rightarrow> string \<Rightarrow> json option" where
  "lookup (JDict kvs) k = map_of kvs k"
| "lookup v k = None"

definition field :: "json \<Rightarrow> string \<Rightarrow> string \<Rightarrow> json option" where
  "field response k1 k2 = (case lookup response k1 of Some d \<Rightarrow> lookup d k2 | None \<Rightarrow> None)"

text \<open>
  What a read with a default gives when nothing goes wrong, and the shape the code expects
  of the stages' outputs: each output is a mapping, and a field that is present has the
  type the code uses it at (a score is a number, the skills are lists of hashable values,
  the experience is a list, the checks are lists of mappings). A field may be absent.
\<close>

definition read_or :: "json \<Rightarrow> string \<Rightarrow> json \<Rightarrow> json" where
  "read_or d k dflt = (case lookup d k of Some v \<Rightarrow> v | None \<Rightarrow> dflt)"

fun elements :: "json \<Rightarrow> json list" where
  "elements (JList xs) = xs"
| "elements v = []"

definition check_defaults :: "json \<Rightarrow> json" where
  "check_defaults check_item =
     JDict [(''item'', read_or check_item ''item'' (JStr [])),
            (''status'', read_or check_item ''status'' (JStr [])),
            (''details'', read_or check_item ''details'' (JStr []))]"

definition score_ok :: "json option \<Rightarrow> bool" where
  "score_ok v = (case v of None \<Rightarrow> True | Some x \<Rightarrow> py_num x \<noteq> None)"

definition list_ok :: "json option \<Rightarrow> bool" where
  "list_ok v = (case v of None \<Rightarrow> True | Some x \<Rightarrow> is_list x)"

definition hashables_ok :: "json option \<Rightarrow> bool" where
  "hashables_ok v =
     (case v of None \<Rightarrow> True | Some x \<Rightarrow> is_list x \<and> list_all py_hashable (elements x))"

definition checks_ok :: "json option \<Rightarrow> bool" where
  "checks_ok v =
     (case v of None \<Rightarrow> True | Some x \<Rightarrow> is_list x \<and> list_all is_dict (elements x))"

definition outputs_well_typed :: "json \<Rightarrow> json \<Rightarrow> json \<Rightarrow> json \<Rightarrow> json \<Rightarrow> json \<Rightarrow> bool" where
  "outputs_well_typed parsed_data_dict quality_data ats_data suggested_skills career_data
       rewritten_data \<longleftrightarrow>
     is_dict parsed_data_dict \<and> is_dict quality_data \<and> is_dict ats_data
     \<and> is_dict career_data \<and> is_dict rewritten_data
     \<and> score_ok (lookup ats_data ''overall_score'')
     \<and> score_ok (lookup rewritten_data ''estimated_new_ats_score'')
     \<and> hashables_ok (lookup parsed_data_dict ''skills'')
     \<and> list_all py_hashable (elements suggested_skills)
     \<and> list_ok (lookup rewritten_data ''rewritten_experience'')
     \<and> checks_ok (lookup ats_data ''passed_checks'')
     \<and> checks_ok (lookup ats_data ''failed_checks'')"

text \<open>A field of the response of a run, if the run returned.\<close>

definition response_field :: "error + json \<Rightarrow> string \<Rightarrow> string \<Rightarrow> json option" where
  "response_field result k1 k2 =
     (case result of Inl e \<Rightarrow> None | Inr response \<Rightarrow> field response k1 k2)"

section \<open>The recommend-careers operation\<close>

text \<open>
  \<open>uuid4\<close> and \<open>now\<close> are the identifier and the timestamp the call draws; \<open>cv_data\<close> is
  accepted and not read.
\<close>

definition mock_jobs :: "string \<Rightarrow> string \<Rightarrow> string \<Rightarrow> json list" where
  "mock_jobs uuid4 now tier =
     [JDict [(''id'', JStr uuid4),
             (''title'', JStr ''Data Scientist''),
             (''company'', JStr ''Tech Company GmbH''),
             (''location'', JStr ''Berlin, Germany''),
             (''job_type'', JStr ''Full-time''),
             (''experience_level'', JStr ''Mid-level''),
             (''description'', JStr ''We are looking for a Data Scientist...''),
             (''required_skills'', JList [JStr ''Python'', JStr ''Machine Learning'', JStr ''SQL'']),
             (''salary_min'', JInt 60000),
             (''salary_max'', JInt 80000),
             (''salary_currency'', JStr ''EUR''),
             (''source'', JStr (if tier = ''free'' then ''BA-API'' else ''LinkedIn'')),
             (''posted_at'', JStr now),
             (''url'', JStr ''https://example.com/job/123'')]]"

definition mock_recommendations :: "json list \<Rightarrow> json list" where
  "mock_recommendations jobs =
     [JDict [(''job'', hd jobs),
             (''overall_match_score'', JInt 85),
             (''skills_match_score'', JInt 90),
             (''experience_match_score'', JInt 80),
             (''education_match_score'', JInt 85),
             (''language_match_score'', JInt 95),
             (''matched_skills'', JList [JStr ''Python'', JStr ''Machine Learning'']),
             (''missing_skills'', JList [JStr ''Deep Learning'', JStr ''TensorFlow'']),
             (''improvement_suggestions'', JList
                [JDict [(''category'', JStr ''skills''),
                        (''suggestion'', JStr ''Learn Deep Learning frameworks like TensorFlow or PyTorch'')],
                 JDict [(''category'', JStr ''experience''),
                        (''suggestion'', JStr ''Work on more ML projects to gain hands-on experience'')]]),
             (''estimated_preparation_time'', JStr ''2-3 months'')]]"

definition recommend_careers ::
  "string \<Rightarrow> string \<Rightarrow> json \<Rightarrow> string \<Rightarrow> string \<Rightarrow> int \<Rightarrow> error + json" where
  "recommend_careers uuid4 now cv_data tier location limit =
     (if tier \<notin> set [''free'', ''premium''] then
        Inl (HTTPException 400
               (''Invalid tier. Must be '' @ quoted ''free'' @ '' or '' @ quoted ''premium''))
      else
        (let jobs = mock_jobs uuid4 now tier;
             recommendations = mock_recommendations jobs
         in Inr (JDict
              [(''tier'', JStr tier),
               (''location'', JStr location),
               (''total_jobs_searched'', JInt (int (length jobs))),
               (''recommendations'', JList (py_slice_to recommendations limit)),
               (''message'', JStr (''Showing top ''
                    @ py_str_int (int (length (py_slice_to recommendations limit)))
                    @ '' recommendations from '' @ tier @ '' tier''))])))"

section \<open>Properties\<close>

lemma and_then_Inr [simp]: "and_then (Inr v) f = f v"
  by (simp add: and_then_def)

lemma and_then_Inl [simp]: "and_then (Inl e) f = Inl e"
  by (simp add: and_then_def)

subsection \<open>The sanitizer\<close>

lemma filter_null_values_eq_JNull: "filter_null_values v = JNull \<longleftrightarrow> v = JNull"
  by (cases v) simp_all

lemma filter_null_values_eq_JStr: "filter_null_values v = JStr s \<longleftrightarrow> v = JStr s"
  by (cases v) simp_all

lemma no_null_filter: "no_null_survives (filter_null_values x)"
  by (induction x rule: filter_null_values.induct)
     (auto simp: filter_null_values_eq_JNull filter_null_values_eq_JStr)

lemma map_fixes_all: "(\<And>x. x \<in> set xs \<Longrightarrow> f x = x) \<Longrightarrow> map f xs = xs"
  by (induction xs) simp_all

lemma map_eq_self_elem: "map f xs = xs \<Longrightarrow> x \<in> set xs \<Longrightarrow> f x = x"
  by (induction xs) auto

lemma filter_keeps_length: "length (filter p xs) = length xs \<Longrightarrow> filter p xs = xs"
proof (induction xs)
  case Nil
  show ?case by simp
next
  case (Cons a xs)
  have le: "length (filter p xs) \<le> length xs" by (rule length_filter_le)
  show ?case
  proof (cases "p a")
    case True
    with Cons show ?thesis by simp
  next
    case False
    with Cons.prems le show ?thesis by simp
  qed
qed

lemma map_filter_eq_self:
  assumes "map f (filter p xs) = xs"
  shows "filter p xs = xs"
proof -
  have "length (map f (filter p xs)) = length xs" using assms by simp
  then have "length (filter p xs) = length xs" by simp
  then show ?thesis by (rule filter_keeps_length)
qed

lemma filter_fixed_if:
  "no_null_survives y \<Longrightarrow> no_emptied y \<Longrightarrow> filter_null_values y = y"
proof (induction y rule: filter_null_values.induct)
  case (1 kvs)
  let ?p = "\<lambda>(k, v). v \<noteq> JNull \<and> v \<noteq> JStr [] \<and> v \<noteq> JList []"
  let ?f = "\<lambda>(k, v). (k, filter_null_values v)"
  have all: "v \<noteq> JNull \<and> v \<noteq> JStr [] \<and> v \<noteq> JList [] \<and> no_null_survives v \<and> no_emptied v"
    if "(k, v) \<in> set kvs" for k v
  proof -
    from "1.prems"(1) that have a: "v \<noteq> JNull \<and> v \<noteq> JStr [] \<and> no_null_survives v"
      by (simp add: Ball_def split_def)
    from "1.prems"(2) that have b: "v \<noteq> JList [] \<and> no_emptied v"
      by (simp add: Ball_def split_def)
    from a b show ?thesis by simp
  qed
  have "\<forall>kv \<in> set kvs. ?p kv"
  proof
    fix kv assume "kv \<in> set kvs"
    then have "(fst kv, snd kv) \<in> set kvs" by simp
    from all [OF this] show "?p kv" by (simp add: split_def)
  qed
  then have keep: "filter ?p kvs = kvs" by (rule filter_True)
  have "map ?f kvs = kvs"
  proof (rule map_fixes_all)
    fix kv assume kv: "kv \<in> set kvs"
    then have mem: "(fst kv, snd kv) \<in> set kvs" by simp
    have "kv \<in> set (filter ?p kvs)" using kv keep by simp
    moreover have "(fst kv, snd kv) = kv" by simp
    moreover have "no_null_survives (snd kv)" using all [OF mem] by simp
    moreover have "no_emptied (snd kv)" using all [OF mem] by simp
    ultimately have "filter_null_values (snd kv) = snd kv" by (rule "1.IH")
    then show "?f kv = kv" by (simp add: split_def)
  qed
  with keep show ?case by simp
next
  case (2 xs)
  let ?p = "\<lambda>item. item \<noteq> JNull \<and> item \<noteq> JStr [] \<and> item \<noteq> JDict []"
  have all: "v \<noteq> JNull \<and> v \<noteq> JStr [] \<and> v \<noteq> JDict [] \<and> no_null_survives v \<and> no_emptied v"
    if "v \<in> set xs" for v
    using "2.prems" that by simp
  then have "\<forall>v \<in> set xs. ?p v" by simp
  then have keep: "filter ?p xs = xs" by (rule filter_True)
  have "map filter_null_values xs = xs"
  proof (rule map_fixes_all)
    fix v assume v: "v \<in> set xs"
    have "v \<in> set (filter ?p xs)" using v keep by simp
    moreover have "no_null_survives v" using all [OF v] by simp
    moreover have "no_emptied v" using all [OF v] by simp
    ultimately show "filter_null_values v = v" by (rule "2.IH")
  qed
  with keep show ?case by simp
qed simp_all

lemma filter_fixed_only_if:
  "filter_null_values y = y \<Longrightarrow> no_emptied y"
proof (induction y rule: filter_null_values.induct)
  case (1 kvs)
  let ?p = "\<lambda>(k, v). v \<noteq> JNull \<and> v \<noteq> JStr [] \<and> v \<noteq> JList []"
  let ?f = "\<lambda>(k, v). (k, filter_null_values v)"
  from 1(2) have eq: "map ?f (filter ?p kvs) = kvs" by simp
  then have keep: "filter ?p kvs = kvs" by (rule map_filter_eq_self)
  with eq have m: "map ?f kvs = kvs" by simp
  have "v \<noteq> JList [] \<and> no_emptied v" if kv: "(k, v) \<in> set kvs" for k v
  proof -
    have "?f (k, v) = (k, v)" using m kv by (rule map_eq_self_elem)
    then have fx: "filter_null_values v = v" by simp
    have "(k, v) \<in> set (filter ?p kvs)" using kv keep by simp
    then have pv: "v \<noteq> JList []" by simp
    have "no_emptied v" using 1(1)[of "(k, v)" k v] kv keep fx by simp
    with pv show ?thesis by simp
  qed
  then show ?case by auto
next
  case (2 xs)
  let ?p = "\<lambda>item. item \<noteq> JNull \<and> item \<noteq> JStr [] \<and> item \<noteq> JDict []"
  from 2(2) have eq: "map filter_null_values (filter ?p xs) = xs" by simp
  then have keep: "filter ?p xs = xs" by (rule map_filter_eq_self)
  with eq have m: "map filter_null_values xs = xs" by simp
  have "v \<noteq> JDict [] \<and> no_emptied v" if v: "v \<in> set xs" for v
  proof -
    have fx: "filter_null_values v = v" using m v by (rule map_eq_self_elem)
    have "v \<in> set (filter ?p xs)" using v keep by simp
    then have pv: "v \<noteq> JDict []" by simp
    have "no_emptied v" using 2(1)[of v] v keep fx by simp
    with pv show ?thesis by simp
  qed
  then show ?case by auto
qed simp_all

text \<open>
  C1 (as the code has it). The sanitizer tests a value before it sanitizes it, so a
  sequence or mapping that only becomes empty through the inner removal is kept by the
  first pass and removed by the second. A second pass changes nothing exactly when the
  first pass has left no empty sequence as a mapping value and no empty mapping as a
  sequence element, at any depth.
\<close>

theorem filter_null_values_idempotent_iff:
  "filter_null_values (filter_null_values x) = filter_null_values x
     \<longleftrightarrow> no_emptied (filter_null_values x)"
  using filter_fixed_if [OF no_null_filter, of x]
    filter_fixed_only_if [of "filter_null_values x"]
  by blast

theorem filter_null_values_idempotent_iff_witness:
  "no_emptied (filter_null_values
      (JDict [(''degree'', JStr ''BSc''), (''year'', JNull),
              (''courses'', JList [JStr ''Logic'', JStr ''''])]))
   \<and> filter_null_values (filter_null_values
      (JDict [(''degree'', JStr ''BSc''), (''year'', JNull),
              (''courses'', JList [JStr ''Logic'', JStr ''''])]))
     = JDict [(''degree'', JStr ''BSc''), (''courses'', JList [JStr ''Logic''])]"
  using filter_null_values_idempotent_iff
    [of "JDict [(''degree'', JStr ''BSc''), (''year'', JNull),
                (''courses'', JList [JStr ''Logic'', JStr ''''])]"]
  by simp

text \<open>
  C1 as stated fails: a list holding a mapping whose only entry is null becomes a list
  holding the empty mapping, and the second pass removes that element.
\<close>

theorem filter_null_values_not_idempotent:
  "filter_null_values (filter_null_values (JList [JDict [(''title'', JNull)]]))
     \<noteq> filter_null_values (JList [JDict [(''title'', JNull)]])"
  by simp

text \<open>
  C2 (as the code has it). The output keeps the shape of the input: a mapping loses the
  entries whose value is null, the empty string or the empty sequence, a sequence loses
  the elements that are null, the empty string or the empty mapping, every kept value is
  sanitized in turn, and a scalar is returned as it is. In the result no mapping value
  and no sequence element, at any depth, is null or the empty string. (An empty sequence
  can survive, see the counterexample.)
\<close>

theorem filter_null_values_removes_nulls:
  "filter_null_values (JDict kvs) =
     JDict (map (\<lambda>kv. (fst kv, filter_null_values (snd kv)))
        (filter (\<lambda>kv. snd kv \<notin> {JNull, JStr [], JList []}) kvs))
   \<and> filter_null_values (JList xs) =
     JList (map filter_null_values (filter (\<lambda>v. v \<notin> {JNull, JStr [], JDict []}) xs))
   \<and> filter_null_values JNull = JNull
   \<and> filter_null_values (JBool b) = JBool b
   \<and> filter_null_values (JInt n) = JInt n
   \<and> filter_null_values (JStr s) = JStr s
   \<and> no_null_survives (filter_null_values x)"
  by (simp add: no_null_filter split_def)

theorem filter_null_values_removes_nulls_witness:
  "filter_null_values
      (JDict [(''name'', JStr ''Ada''), (''phone'', JStr ''''), (''hobbies'', JList []),
              (''skills'', JList [JStr ''SQL'', JNull, JDict []])])
     = JDict [(''name'', JStr ''Ada''), (''skills'', JList [JStr ''SQL''])]
   \<and> no_null_survives (JDict [(''name'', JStr ''Ada''), (''skills'', JList [JStr ''SQL''])])"
  using filter_null_values_removes_nulls
    [of "[]" "[]" True 0 "[]"
        "JDict [(''name'', JStr ''Ada''), (''phone'', JStr ''''), (''hobbies'', JList []),
                (''skills'', JList [JStr ''SQL'', JNull, JDict []])]"]
  by simp

text \<open>
  C2 as stated fails in its last part: a mapping value that is a sequence of nulls is
  kept and sanitized to the empty sequence, which survives in the result.
\<close>

theorem filter_null_values_empty_list_survives:
  "filter_null_values (JDict [(''skills'', JList [JNull])]) = JDict [(''skills'', JList [])]
   \<and> \<not> no_empty_survives (filter_null_values (JDict [(''skills'', JList [JNull])]))"
  by simp

subsection \<open>Text extraction\<close>

text \<open>
  C4. The extension is what follows the last dot of the file name, in lower case. The
  page-oriented reader takes \<open>pdf\<close>, the paragraph-oriented reader takes \<open>docx\<close> and
  \<open>doc\<close>; with any other extension the extraction raises the client error (status 400)
  whose detail names that extension, and neither reader is called.
\<close>

theorem extract_text_unsupported_format:
  "file_extension uploaded_file \<notin> {''pdf'', ''docx'', ''doc''} \<Longrightarrow>
   extract_text_from_file fitz_pages docx_paragraphs uploaded_file =
     Inl (HTTPException 400 (''Unsupported file format: '' @ file_extension uploaded_file))"
  by (simp add: extract_text_from_file_def Let_def)

lemma file_extension_resume_txt:
  "file_extension \<lparr>filename = ''resume.txt'', file_read = [37, 80]\<rparr> = ''txt''"
  by (simp add: file_extension_def py_lower_def lower_char_def)

theorem extract_text_unsupported_format_witness:
  "file_extension \<lparr>filename = ''resume.txt'', file_read = [37, 80]\<rparr> = ''txt''
   \<and> extract_text_from_file (\<lambda>b. Inr [''page'']) (\<lambda>b. Inr [''para''])
        \<lparr>filename = ''resume.txt'', file_read = [37, 80]\<rparr>
      = Inl (HTTPException 400 ''Unsupported file format: txt'')"
  using extract_text_unsupported_format
    [of "\<lparr>filename = ''resume.txt'', file_read = [37, 80]\<rparr>"
        "\<lambda>b. Inr [''page'']" "\<lambda>b. Inr [''para'']"]
  by (simp add: file_extension_resume_txt)

subsection \<open>Language identification\<close>

text \<open>
  C6. Whatever the classifier does on the text, \<open>detect_language\<close> returns one of
  \<open>en\<close>, \<open>de\<close>, \<open>ar\<close>: the classifier's own code when it is one of the three, and \<open>en\<close>
  when the classifier raises its exception or answers with any other code.
\<close>

theorem detect_language_total:
  "detect_language detect text \<in> {''en'', ''de'', ''ar''}
   \<and> (detect text = LangDetectException \<longrightarrow> detect_language detect text = ''en'')
   \<and> (\<forall>lang. detect text = Lang lang \<longrightarrow>
         detect_language detect text = (if lang \<in> {''en'', ''de'', ''ar''} then lang else ''en''))"
  by (cases "detect text") (simp_all add: detect_language_def)

theorem detect_language_total_witness:
  "detect_language (\<lambda>t. LangDetectException) ''x'' = ''en''
   \<and> detect_language (\<lambda>t. Lang ''fr'') ''Bonjour tout le monde'' = ''en''
   \<and> detect_language (\<lambda>t. Lang ''de'') ''Guten Tag'' = ''de''"
  using detect_language_total [of "\<lambda>t. LangDetectException" "''x''"]
    detect_language_total [of "\<lambda>t. Lang ''fr''" "''Bonjour tout le monde''"]
    detect_language_total [of "\<lambda>t. Lang ''de''" "''Guten Tag''"]
  by simp

subsection \<open>Career recommendations\<close>

lemma py_slice_to_singleton: "py_slice_to [r] limit = (if 1 \<le> limit then [r] else [])"
  by (cases "nat limit") (auto simp: py_slice_to_def)

text \<open>
  C10. With a valid tier the operation returns a response in which
  \<open>total_jobs_searched\<close> is 1, \<open>recommendations\<close> has exactly one entry when the limit is
  at least 1 and none when it is 0 or negative, and the message gives that number of
  entries and the tier.
\<close>

theorem recommend_careers_mock:
  "tier \<in> {''free'', ''premium''} \<Longrightarrow>
   \<exists>response r.
     recommend_careers uuid4 now cv_data tier location limit = Inr response
     \<and> lookup response ''total_jobs_searched'' = Some (JInt 1)
     \<and> lookup response ''recommendations'' = Some (JList (if 1 \<le> limit then [r] else []))
     \<and> lookup response ''message'' =
         Some (JStr (''Showing top '' @ (if 1 \<le> limit then ''1'' else ''0'')
                       @ '' recommendations from '' @ tier @ '' tier''))"
  by (auto simp: recommend_careers_def Let_def mock_jobs_def mock_recommendations_def
      py_slice_to_singleton py_str_int_def)

theorem recommend_careers_mock_witness:
  "(\<exists>response r.
     recommend_careers ''id-1'' ''2025-01-01T00:00:00'' (JDict []) ''premium'' ''Germany'' 10
       = Inr response
     \<and> lookup response ''total_jobs_searched'' = Some (JInt 1)
     \<and> lookup response ''recommendations'' = Some (JList [r])
     \<and> lookup response ''message'' =
         Some (JStr ''Showing top 1 recommendations from premium tier''))
   \<and> (\<exists>response.
     recommend_careers ''id-1'' ''2025-01-01T00:00:00'' (JDict []) ''free'' ''Germany'' (- 3)
       = Inr response
     \<and> lookup response ''total_jobs_searched'' = Some (JInt 1)
     \<and> lookup response ''recommendations'' = Some (JList [])
     \<and> lookup response ''message'' =
         Some (JStr ''Showing top 0 recommendations from free tier''))"
  using recommend_careers_mock
    [of "''premium''" "''id-1''" "''2025-01-01T00:00:00''" "JDict []" "''Germany''" 10]
    recommend_careers_mock
    [of "''free''" "''id-1''" "''2025-01-01T00:00:00''" "JDict []" "''Germany''" "- 3"]
  by simp

subsection \<open>Social links\<close>

lemma and_then_return: "and_then r Inr = r"
  by (cases r) simp_all

lemma apply_rules_Nil_fn: "apply_rules [] = Inr"
  by (rule ext) simp

lemma apply_rules_Cons_fn:
  "apply_rules ((key, v, ok, detail) # rules) =
     (\<lambda>acc. and_then (link_block key v ok detail acc) (apply_rules rules))"
  by (rule ext) simp

lemma validate_as_rules:
  "validate_social_links g l k p s m t = apply_rules (link_rules g l k p s m t) []"
  by (simp only: validate_social_links_def link_rules_def apply_rules_Cons_fn
      apply_rules_Nil_fn and_then_return)

lemma link_block_rejected:
  "link_rejected (key, v, ok, detail) \<Longrightarrow>
   link_block key v ok detail acc = Inl (HTTPException 400 detail)"
  by (simp add: link_rejected_def link_block_def link_supplied_def)

lemma link_block_passed:
  "\<not> link_rejected (key, v, ok, detail) \<Longrightarrow>
   link_block key v ok detail acc = Inr (acc @ link_entries [(key, v, ok, detail)])"
  by (auto simp: link_rejected_def link_block_def link_supplied_def link_entries_def)

lemma link_entries_Cons: "link_entries (rule # rules) = link_entries [rule] @ link_entries rules"
  by (simp add: link_entries_def)

lemma apply_rules_result:
  "apply_rules rules acc =
     (case find link_rejected rules of
        Some (key, v, ok, detail) \<Rightarrow> Inl (HTTPException 400 detail)
      | None \<Rightarrow> Inr (acc @ link_entries rules))"
proof (induction rules arbitrary: acc)
  case Nil
  show ?case by (simp add: link_entries_def)
next
  case (Cons rule rules)
  obtain key v ok detail where rule: "rule = (key, v, ok, detail)" by (cases rule) auto
  show ?case
  proof (cases "link_rejected rule")
    case True
    have found: "find link_rejected (rule # rules) = Some (key, v, ok, detail)"
      using True by (simp add: rule)
    have raised: "apply_rules (rule # rules) acc = Inl (HTTPException 400 detail)"
      using True by (simp add: rule link_block_rejected)
    show ?thesis unfolding found raised by simp
  next
    case False
    have rest: "find link_rejected (rule # rules) = find link_rejected rules"
      using False by simp
    have entries: "(acc @ link_entries [rule]) @ link_entries rules
        = acc @ link_entries (rule # rules)"
      by (simp add: link_entries_Cons [of rule rules])
    have "apply_rules (rule # rules) acc = apply_rules rules (acc @ link_entries [rule])"
      using False by (simp add: rule link_block_passed)
    also have "\<dots> = (case find link_rejected rules of
        Some (key, v, ok, detail) \<Rightarrow> Inl (HTTPException 400 detail)
      | None \<Rightarrow> Inr ((acc @ link_entries [rule]) @ link_entries rules))"
      by (rule Cons.IH)
    finally show ?thesis unfolding rest entries .
  qed
qed

lemma apply_rules_from_empty:
  "apply_rules rules [] =
     (case find link_rejected rules of
        Some (key, v, ok, detail) \<Rightarrow> Inl (HTTPException 400 detail)
      | None \<Rightarrow> Inr (link_entries rules))"
  by (cases "find link_rejected rules") (simp_all add: apply_rules_result)

text \<open>
  C8 (as the code has it). The validation goes through the platforms in the order github,
  linkedin, kaggle, portfolio, stackoverflow, medium, twitter. A supplied value is one that
  is non-empty and non-blank; its test is that the lower-cased value contains the
  platform's domain anywhere in it (for portfolio any of the generic indicators, for
  twitter either of its two domains). The first supplied value that fails its test raises
  the client error with that platform's detail. If none fails, the result is the map of
  exactly the supplied values, each trimmed, under its platform's key; an empty or blank
  value never gives an entry.
\<close>

theorem validate_social_links_rules:
  "validate_social_links github linkedin kaggle portfolio stackoverflow medium twitter =
     (case find link_rejected
             (link_rules github linkedin kaggle portfolio stackoverflow medium twitter) of
        Some (key, v, ok, detail) \<Rightarrow> Inl (HTTPException 400 detail)
      | None \<Rightarrow>
          Inr (link_entries
                 (link_rules github linkedin kaggle portfolio stackoverflow medium twitter)))"
  unfolding validate_as_rules by (rule apply_rules_from_empty)

lemma py_strip_Nil: "py_strip [] = []"
  by (simp add: py_strip_def)

lemma link_block_blank: "link_block key [] ok detail acc = Inr acc"
  by (simp add: link_block_def)

lemma notgithub_lower: "py_lower ''https://notgithub.com/abc'' = ''https://notgithub.com/abc''"
  by (simp add: py_lower_def lower_char_def)

lemma notgithub_strip: "py_strip ''https://notgithub.com/abc'' = ''https://notgithub.com/abc''"
  by (simp add: py_strip_def is_space_def)

lemma notgithub_contains: "py_in ''github.com'' ''https://notgithub.com/abc''"
  by (simp add: py_in_def sublist_code(3))

text \<open>
  C8 as stated fails in its example of a rejected link: the test is containment, and
  \<open>https://notgithub.com/abc\<close> contains \<open>github.com\<close>, so it is accepted.
\<close>

theorem notgithub_accepted:
  "validate_social_links ''https://notgithub.com/abc'' [] [] [] [] [] []
     = Inr [(''github'', ''https://notgithub.com/abc'')]"
  by (simp add: validate_social_links_def link_block_blank)
     (simp add: link_block_def notgithub_lower notgithub_strip notgithub_contains)

lemma github_mixed_lower: "py_lower ''  https://GitHub.com/abc '' = ''  https://github.com/abc ''"
  by (simp add: py_lower_def lower_char_def)

lemma github_mixed_strip: "py_strip ''  https://GitHub.com/abc '' = ''https://GitHub.com/abc''"
  by (simp add: py_strip_def is_space_def)

lemma github_mixed_contains: "py_in ''github.com'' ''  https://github.com/abc ''"
  by (simp add: py_in_def sublist_code(3))

lemma blank_strip: "py_strip ''   '' = []"
  by (simp add: py_strip_def is_space_def)

lemma gitlab_lower: "py_lower ''https://gitlab.com/abc'' = ''https://gitlab.com/abc''"
  by (simp add: py_lower_def lower_char_def)

lemma gitlab_strip: "py_strip ''https://gitlab.com/abc'' = ''https://gitlab.com/abc''"
  by (simp add: py_strip_def is_space_def)

lemma gitlab_lacks_github: "\<not> py_in ''github.com'' ''https://gitlab.com/abc''"
  by (simp add: py_in_def sublist_code(3))

lemma github_accept_rules:
  "find link_rejected (link_rules ''  https://GitHub.com/abc '' [] ''   '' [] [] [] []) = None"
  by (simp add: link_rules_def link_rejected_def link_supplied_def py_strip_Nil blank_strip
      github_mixed_lower github_mixed_contains)

lemma github_accept_entries:
  "link_entries (link_rules ''  https://GitHub.com/abc '' [] ''   '' [] [] [] [])
     = [(''github'', ''https://GitHub.com/abc'')]"
  by (simp add: link_rules_def link_entries_def link_supplied_def py_strip_Nil blank_strip
      github_mixed_strip)

lemma gitlab_reject_rules:
  "find link_rejected (link_rules ''https://gitlab.com/abc'' [] [] [] [] [] [])
     = Some (''github'', ''https://gitlab.com/abc'', False,
              ''Invalid GitHub URL. Must contain '' @ quoted ''github.com'')"
  by (simp add: link_rules_def link_rejected_def link_supplied_def
      gitlab_lower gitlab_strip gitlab_lacks_github)

theorem validate_social_links_rules_witness:
  "validate_social_links ''  https://GitHub.com/abc '' [] ''   '' [] [] [] []
     = Inr [(''github'', ''https://GitHub.com/abc'')]
   \<and> validate_social_links ''https://gitlab.com/abc'' [] [] [] [] [] []
     = Inl (HTTPException 400 (''Invalid GitHub URL. Must contain '' @ quoted ''github.com''))"
  using validate_social_links_rules [of "''  https://GitHub.com/abc ''" "[]" "''   ''" "[]" "[]" "[]" "[]"]
    validate_social_links_rules [of "''https://gitlab.com/abc''" "[]" "[]" "[]" "[]" "[]" "[]"]
  by (simp only: github_accept_rules github_accept_entries gitlab_reject_rules
      option.case prod.case simp_thms)

subsection \<open>Combined skills\<close>

lemma py_eq_JStr: "py_eq (JStr a) y \<longleftrightarrow> y = JStr a"
  by (cases y) (auto simp: py_eq_def)

lemma set_add_JStr:
  "set_add seen (JStr a) = (if JStr a \<in> set seen then seen else seen @ [JStr a])"
  by (auto simp: set_add_def list_ex_iff py_eq_JStr)

lemma foldl_set_add_strings:
  "distinct seen \<Longrightarrow>
   set (foldl set_add seen (map JStr xs)) = set seen \<union> JStr ` set xs
   \<and> distinct (foldl set_add seen (map JStr xs))"
proof (induction xs arbitrary: seen)
  case Nil
  then show ?case by simp
next
  case (Cons a xs)
  have d: "distinct (set_add seen (JStr a))"
    using Cons.prems by (simp add: set_add_JStr)
  have s: "set (set_add seen (JStr a)) = insert (JStr a) (set seen)"
    by (auto simp: set_add_JStr)
  from Cons.IH [OF d] s show ?case by auto
qed

lemma hashable_strings: "list_all py_hashable (map JStr xs)"
  by (induction xs) simp_all

lemma py_set_strings:
  "\<exists>members. py_set (map JStr xs) = Inr members
     \<and> set members = JStr ` set xs \<and> distinct members"
  using foldl_set_add_strings [of "[]" xs] by (simp add: py_set_def hashable_strings)

text \<open>
  C7. When the parsed CV holds a list of skill strings and the suggestion stage returned a
  list of skill strings, the combined skills are, in whatever order the set is listed,
  each string of either list exactly once and nothing else.
\<close>

theorem combined_skills_union:
  assumes order: "\<And>members. mset (set_order members) = mset members"
    and parsed: "lookup parsed_data_dict ''skills'' = Some (JList (map JStr original))"
    and suggested: "suggested_skills = JList (map JStr suggestions)"
  shows "\<exists>skills. combined_skills set_order parsed_data_dict suggested_skills = Inr skills
     \<and> set skills = JStr ` (set original \<union> set suggestions)
     \<and> distinct skills"
proof -
  obtain kvs where d: "parsed_data_dict = JDict kvs"
    using parsed by (cases parsed_data_dict) simp_all
  with parsed have get: "py_get parsed_data_dict ''skills'' (JList []) = Inr (JList (map JStr original))"
    by simp
  obtain members where m: "py_set (map JStr (original @ suggestions)) = Inr members"
    "set members = JStr ` set (original @ suggestions)" "distinct members"
    using py_set_strings [of "original @ suggestions"] by blast
  have run: "combined_skills set_order parsed_data_dict suggested_skills = Inr (set_order members)"
    using m(1) by (simp add: combined_skills_def get suggested)
  have "set (set_order members) = set members"
    using order [of members] by (metis set_mset_mset)
  moreover have "distinct (set_order members)"
    using order [of members] m(3) by (metis mset_eq_imp_distinct_iff)
  ultimately show ?thesis using run m(2) by (simp add: image_Un)
qed

lemma combined_skills_example:
  "combined_skills rev (JDict [(''name'', JStr ''Ada''), (''skills'', JList [JStr ''Python'', JStr ''SQL''])])
      (JList [JStr ''SQL'', JStr ''Docker''])
     = Inr [JStr ''Docker'', JStr ''SQL'', JStr ''Python'']"
  by (simp add: combined_skills_def py_set_def set_add_def py_eq_def)

theorem combined_skills_union_witness:
  "(\<forall>members :: json list. mset (rev members) = mset members)
   \<and> combined_skills rev
        (JDict [(''name'', JStr ''Ada''), (''skills'', JList [JStr ''Python'', JStr ''SQL''])])
        (JList [JStr ''SQL'', JStr ''Docker''])
      = Inr [JStr ''Docker'', JStr ''SQL'', JStr ''Python'']
   \<and> (\<exists>skills. combined_skills rev
        (JDict [(''name'', JStr ''Ada''), (''skills'', JList [JStr ''Python'', JStr ''SQL''])])
        (JList [JStr ''SQL'', JStr ''Docker'']) = Inr skills
      \<and> set skills = JStr ` ({''Python'', ''SQL''} \<union> {''SQL'', ''Docker''})
      \<and> distinct skills)"
proof -
  have order: "\<And>members :: json list. mset (rev members) = mset members" by simp
  have parsed: "lookup (JDict [(''name'', JStr ''Ada''), (''skills'', JList [JStr ''Python'', JStr ''SQL''])])
      ''skills'' = Some (JList (map JStr [''Python'', ''SQL'']))" by simp
  have suggested: "JList [JStr ''SQL'', JStr ''Docker''] = JList (map JStr [''SQL'', ''Docker''])"
    by simp
  have "\<exists>skills. combined_skills rev
        (JDict [(''name'', JStr ''Ada''), (''skills'', JList [JStr ''Python'', JStr ''SQL''])])
        (JList [JStr ''SQL'', JStr ''Docker'']) = Inr skills
      \<and> set skills = JStr ` (set [''Python'', ''SQL''] \<union> set [''SQL'', ''Docker''])
      \<and> distinct skills"
    using order parsed suggested by (rule combined_skills_union)
  then have union: "\<exists>skills. combined_skills rev
        (JDict [(''name'', JStr ''Ada''), (''skills'', JList [JStr ''Python'', JStr ''SQL''])])
        (JList [JStr ''SQL'', JStr ''Docker'']) = Inr skills
      \<and> set skills = JStr ` ({''Python'', ''SQL''} \<union> {''SQL'', ''Docker''})
      \<and> distinct skills"
    by (simp only: list.set)
  from order combined_skills_example union show ?thesis by blast
qed

subsection \<open>Assembly of the response\<close>

lemma and_then_eq_Inr: "and_then r f = Inr y \<longleftrightarrow> (\<exists>v. r = Inr v \<and> f v = Inr y)"
  by (cases r) simp_all

lemma py_dict_all_Inr:
  "py_dict (map (\<lambda>kv. (fst kv, Inr (snd kv))) kvs) = Inr (JDict kvs)"
proof -
  have "dict_display (map (\<lambda>kv. (fst kv, Inr (snd kv))) kvs) = Inr kvs"
    by (induction kvs) simp_all
  then show ?thesis by (simp add: py_dict_def)
qed

lemma py_dict6:
  assumes "py_dict [(k1, r1), (k2, r2), (k3, r3), (k4, r4), (k5, r5), (k6, r6)] = Inr d"
  shows "\<exists>v1 v2 v3 v4 v5 v6.
     r1 = Inr v1 \<and> r2 = Inr v2 \<and> r3 = Inr v3 \<and> r4 = Inr v4 \<and> r5 = Inr v5 \<and> r6 = Inr v6
     \<and> d = JDict [(k1, v1), (k2, v2), (k3, v3), (k4, v4), (k5, v5), (k6, v6)]"
  using assms by (auto simp: py_dict_def and_then_eq_Inr)

lemma py_sub_eq_Inr:
  "py_sub x y = Inr d \<longleftrightarrow> (\<exists>m n. py_num x = Some m \<and> py_num y = Some n \<and> d = JInt (m - n))"
  by (auto simp: py_sub_def split: option.splits)

lemma py_add_num:
  "py_num x = Some m \<Longrightarrow> py_num y = Some n \<Longrightarrow> py_add x y = Inr (JInt (m + n))"
  by (cases x; cases y) simp_all

lemma get_estimated_eq_Inr:
  "get_estimated rewritten_data (Inr d) = Inr v \<longleftrightarrow>
     is_dict rewritten_data \<and> v = read_or rewritten_data ''estimated_new_ats_score'' d"
  by (cases rewritten_data) (auto simp: get_estimated_def read_or_def)

lemma improvements_made_numbers:
  "improvements_made rewritten_data suggested_skills original_ats improved_ats il ol = Inr xs
   \<Longrightarrow> \<exists>a b. py_num improved_ats = Some a \<and> py_num original_ats = Some b"
  by (auto simp: improvements_made_def and_then_eq_Inr py_sub_eq_Inr)

lemma improvements_summary_value:
  "improvements_summary original_ats improved_ats improvements il ol =
     Inr (JDict [(''ats_score_before'', original_ats),
                 (''ats_score_after'', improved_ats),
                 (''improvements_made'', JList improvements),
                 (''translation_applied'', JBool (il \<noteq> ol)),
                 (''input_language'', JStr il),
                 (''output_language'', JStr ol)])"
  by (simp add: improvements_summary_def py_dict_def)

lemma py_max0_diff: "py_max0 (JInt n) = Inr (JInt (max 0 n))"
  by (simp add: py_max0_def max_def)

lemma improvement_notes_value:
  assumes original: "py_get ats_data ''overall_score'' (JInt 0) = Inr original_ats"
    and improved: "get_estimated rewritten_data (py_add original_ats (JInt 10)) = Inr improved_ats"
    and a: "py_num improved_ats = Some a"
  shows "improvement_notes rewritten_data ats_data =
     Inr (JDict [(''original_ats_score'', original_ats),
                 (''improved_ats_score'', improved_ats),
                 (''target_ats_score'', JInt 90),
                 (''gap_to_target'', JInt (max 0 (90 - a))),
                 (''missing_for_90_percent'', if a < 90 then missing_for_90_percent else JList []),
                 (''recommendation'',
                    if a < 90 then recommendation_below_90 else recommendation_reached),
                 (''examples'', if a < 90 then examples_below_90 else JList [])])"
proof -
  have est: "notes_estimate rewritten_data ats_data = Inr improved_ats"
    unfolding notes_estimate_def original and_then_Inr by (rule improved)
  have gap: "py_sub (JInt 90) improved_ats = Inr (JInt (90 - a))"
    by (simp add: py_sub_def a)
  have lt: "py_lt improved_ats (JInt 90) = Inr (a < 90)"
    by (simp add: py_lt_def a)
  show ?thesis
    by (simp add: improvement_notes_def py_dict_def original est gap lt py_max0_diff below_90_def)
qed

lemma assemble_response_scores:
  assumes "assemble_response set_order parsed_data_dict quality_data ats_data suggested_skills
      career_data rewritten_data input_language output_language social_links_data = Inr response"
  shows "\<exists>original_ats improved_ats b a.
      py_get ats_data ''overall_score'' (JInt 0) = Inr original_ats
    \<and> py_num original_ats = Some b
    \<and> is_dict rewritten_data
    \<and> improved_ats = read_or rewritten_data ''estimated_new_ats_score'' (JInt (b + 10))
    \<and> py_num improved_ats = Some a
    \<and> field response ''improvements_summary'' ''ats_score_before'' = Some original_ats
    \<and> field response ''improvements_summary'' ''ats_score_after'' = Some improved_ats
    \<and> field response ''improvement_notes'' ''original_ats_score'' = Some original_ats
    \<and> field response ''improvement_notes'' ''improved_ats_score'' = Some improved_ats
    \<and> field response ''improvement_notes'' ''gap_to_target'' = Some (JInt (max 0 (90 - a)))"
proof -
  from assms obtain original_ats improved_ats skills improvements where
    original: "py_get ats_data ''overall_score'' (JInt 0) = Inr original_ats"
    and improved: "get_estimated rewritten_data (py_add original_ats (JInt 10)) = Inr improved_ats"
    and made: "improvements_made rewritten_data suggested_skills original_ats improved_ats
        input_language output_language = Inr improvements"
    and display: "py_dict
        [(''final_cv'', final_cv parsed_data_dict rewritten_data skills social_links_data),
         (''career_recommendation'', career_recommendation career_data),
         (''improvements_summary'',
            improvements_summary original_ats improved_ats improvements
              input_language output_language),
         (''improvement_notes'', improvement_notes rewritten_data ats_data),
         (''quality_report'', quality_report quality_data),
         (''ats_compliance'', ats_compliance ats_data)] = Inr response"
    unfolding assemble_response_def and_then_eq_Inr by blast
  from improvements_made_numbers [OF made] obtain a b where
    a: "py_num improved_ats = Some a" and b: "py_num original_ats = Some b" by blast
  have plus: "py_add original_ats (JInt 10) = Inr (JInt (b + 10))"
    using b by (simp add: py_add_num)
  from improved have est: "is_dict rewritten_data"
    "improved_ats = read_or rewritten_data ''estimated_new_ats_score'' (JInt (b + 10))"
    unfolding plus get_estimated_eq_Inr by simp_all
  from py_dict6 [OF display] obtain v1 v2 v3 v4 v5 v6 where
    v3: "improvements_summary original_ats improved_ats improvements
              input_language output_language = Inr v3"
    and v4: "improvement_notes rewritten_data ats_data = Inr v4"
    and response: "response = JDict [(''final_cv'', v1), (''career_recommendation'', v2),
       (''improvements_summary'', v3), (''improvement_notes'', v4),
       (''quality_report'', v5), (''ats_compliance'', v6)]"
    by blast
  have s: "lookup response ''improvements_summary'' = Some v3"
    and n: "lookup response ''improvement_notes'' = Some v4"
    by (simp_all add: response)
  have v3': "v3 = JDict [(''ats_score_before'', original_ats),
                 (''ats_score_after'', improved_ats),
                 (''improvements_made'', JList improvements),
                 (''translation_applied'', JBool (input_language \<noteq> output_language)),
                 (''input_language'', JStr input_language),
                 (''output_language'', JStr output_language)]"
    using v3 unfolding improvements_summary_value by simp
  have f1: "field response ''improvements_summary'' ''ats_score_before'' = Some original_ats"
    by (simp add: field_def s v3')
  have f2: "field response ''improvements_summary'' ''ats_score_after'' = Some improved_ats"
    by (simp add: field_def s v3')
  have v4': "v4 = JDict [(''original_ats_score'', original_ats),
                 (''improved_ats_score'', improved_ats),
                 (''target_ats_score'', JInt 90),
                 (''gap_to_target'', JInt (max 0 (90 - a))),
                 (''missing_for_90_percent'', if a < 90 then missing_for_90_percent else JList []),
                 (''recommendation'',
                    if a < 90 then recommendation_below_90 else recommendation_reached),
                 (''examples'', if a < 90 then examples_below_90 else JList [])]"
    using v4 unfolding improvement_notes_value [OF original improved a] by simp
  have f3: "field response ''improvement_notes'' ''original_ats_score'' = Some original_ats"
    by (simp add: field_def n v4')
  have f4: "field response ''improvement_notes'' ''improved_ats_score'' = Some improved_ats"
    by (simp add: field_def n v4')
  have f5: "field response ''improvement_notes'' ''gap_to_target'' = Some (JInt (max 0 (90 - a)))"
    by (simp add: field_def n v4')
  from original b est a f1 f2 f3 f4 f5 show ?thesis by blast
qed

lemma py_get_read_or: "is_dict d \<Longrightarrow> py_get d k dflt = Inr (read_or d k dflt)"
  by (cases d) (simp_all add: read_or_def)

lemma score_ok_read_or:
  "score_ok (lookup d k) \<Longrightarrow> py_num dflt = Some n \<Longrightarrow> \<exists>m. py_num (read_or d k dflt) = Some m"
  by (cases "lookup d k") (auto simp: score_ok_def read_or_def)

lemma final_cv_fields:
  assumes "is_dict parsed_data_dict" "is_dict rewritten_data"
  shows "\<exists>fc. final_cv parsed_data_dict rewritten_data skills social_links_data = Inr fc
    \<and> lookup fc ''name'' = Some (py_or (read_or parsed_data_dict ''name'' JNull) (JStr []))
    \<and> lookup fc ''email'' = Some (py_or (read_or parsed_data_dict ''email'' JNull) (JStr []))
    \<and> lookup fc ''phone'' = Some (py_or (read_or parsed_data_dict ''phone'' JNull) (JStr []))
    \<and> lookup fc ''address'' = Some (py_or (read_or parsed_data_dict ''address'' JNull) (JStr []))
    \<and> lookup fc ''summary'' = Some (read_or rewritten_data ''rewritten_summary'' (JStr []))
    \<and> lookup fc ''skills'' = Some (JList skills)
    \<and> lookup fc ''experience'' = Some (read_or rewritten_data ''rewritten_experience'' (JList []))
    \<and> lookup fc ''education'' = Some (read_or parsed_data_dict ''education'' (JList []))
    \<and> lookup fc ''projects'' = Some (read_or parsed_data_dict ''projects'' (JList []))
    \<and> lookup fc ''languages'' = Some (read_or parsed_data_dict ''languages'' (JList []))
    \<and> lookup fc ''hobbies'' = Some (read_or parsed_data_dict ''hobbies'' (JList []))"
  using assms
  by (simp add: final_cv_def py_dict_def get_or_empty_def py_get_read_or)

lemma career_recommendation_fields:
  assumes "is_dict career_data"
  shows "\<exists>cr. career_recommendation career_data = Inr cr
    \<and> lookup cr ''recommended_career''
        = Some (read_or career_data ''recommended_career'' (JStr ''Unknown''))
    \<and> lookup cr ''confidence'' = Some (read_or career_data ''confidence'' (JInt 0))
    \<and> lookup cr ''reasoning'' = Some (read_or career_data ''reasoning'' (JStr []))
    \<and> lookup cr ''alternative_careers''
        = Some (read_or career_data ''alternative_careers'' (JList []))"
  using assms by (simp add: career_recommendation_def py_dict_def py_get_read_or)

lemma quality_report_fields:
  assumes "is_dict quality_data"
  shows "\<exists>q. quality_report quality_data = Inr q
    \<and> lookup q ''overall_score'' = Some (read_or quality_data ''overall_score'' (JInt 0))
    \<and> lookup q ''strengths'' = Some (read_or quality_data ''strengths'' (JList []))
    \<and> lookup q ''weaknesses'' = Some (read_or quality_data ''weaknesses'' (JList []))
    \<and> lookup q ''suggestions'' = Some (read_or quality_data ''suggestions'' (JList []))"
  using assms by (simp add: quality_report_def py_dict_def py_get_read_or)

lemma check_record_dict: "is_dict c \<Longrightarrow> check_record c = Inr (check_defaults c)"
  by (simp add: check_record_def check_defaults_def py_dict_def py_get_read_or)

lemma map_result_check_record:
  "list_all is_dict xs \<Longrightarrow> map_result check_record xs = Inr (map check_defaults xs)"
  by (induction xs) (simp_all add: check_record_dict)

lemma check_records_value:
  assumes "is_dict ats_data" "checks_ok (lookup ats_data key)"
  shows "check_records ats_data key =
     Inr (JList (map check_defaults (elements (read_or ats_data key (JList [])))))"
proof (cases "lookup ats_data key")
  case None
  then show ?thesis
    using assms(1) by (simp add: check_records_def py_get_read_or read_or_def)
next
  case (Some v)
  with assms(2) obtain xs where v: "v = JList xs" and xs: "list_all is_dict xs"
    by (cases v) (simp_all add: checks_ok_def)
  show ?thesis
    using assms(1) xs
    by (simp add: check_records_def py_get_read_or read_or_def Some v map_result_check_record)
qed

lemma ats_compliance_fields:
  assumes "is_dict ats_data" "checks_ok (lookup ats_data ''passed_checks'')"
    "checks_ok (lookup ats_data ''failed_checks'')"
  shows "\<exists>ac. ats_compliance ats_data = Inr ac
    \<and> lookup ac ''overall_score'' = Some (read_or ats_data ''overall_score'' (JInt 0))
    \<and> lookup ac ''passed_checks''
        = Some (JList (map check_defaults (elements (read_or ats_data ''passed_checks'' (JList [])))))
    \<and> lookup ac ''failed_checks''
        = Some (JList (map check_defaults (elements (read_or ats_data ''failed_checks'' (JList [])))))
    \<and> lookup ac ''critical_issues'' = Some (read_or ats_data ''critical_issues'' (JList []))
    \<and> lookup ac ''recommendations'' = Some (read_or ats_data ''recommendations'' (JList []))"
  using assms
  by (simp add: ats_compliance_def py_dict_def py_get_read_or check_records_value)

lemma combined_skills_returns:
  assumes "is_dict parsed_data_dict" "hashables_ok (lookup parsed_data_dict ''skills'')"
    "list_all py_hashable (elements suggested_skills)"
  shows "\<exists>skills. combined_skills set_order parsed_data_dict suggested_skills = Inr skills"
proof -
  obtain xs where xs: "read_or parsed_data_dict ''skills'' (JList []) = JList xs"
    "list_all py_hashable xs"
    using assms(2)
    by (cases "lookup parsed_data_dict ''skills''"; cases "read_or parsed_data_dict ''skills'' (JList [])")
       (auto simp: hashables_ok_def read_or_def)
  obtain ys where ys: "(if is_list suggested_skills then suggested_skills else JList []) = JList ys"
    "list_all py_hashable ys"
    using assms(3) by (cases suggested_skills) simp_all
  show ?thesis
    using assms(1) xs(2) ys(2)
    by (simp add: combined_skills_def py_get_read_or xs(1) ys(1) py_set_def)
qed

lemma improvements_made_returns:
  assumes "is_dict rewritten_data" "list_ok (lookup rewritten_data ''rewritten_experience'')"
    "py_num improved_ats = Some a" "py_num original_ats = Some b"
  shows "\<exists>improvements. improvements_made rewritten_data suggested_skills original_ats
      improved_ats input_language output_language = Inr improvements"
proof -
  obtain xs where "read_or rewritten_data ''rewritten_experience'' (JList []) = JList xs"
    using assms(2)
    by (cases "lookup rewritten_data ''rewritten_experience''";
        cases "read_or rewritten_data ''rewritten_experience'' (JList [])")
       (auto simp: list_ok_def read_or_def)
  then show ?thesis
    using assms(1,3,4) by (simp add: improvements_made_def py_get_read_or py_sub_def)
qed

lemma assemble_response_returns:
  assumes wt: "outputs_well_typed parsed_data_dict quality_data ats_data suggested_skills
      career_data rewritten_data"
  shows "\<exists>response skills fc cr q ac.
      assemble_response set_order parsed_data_dict quality_data ats_data suggested_skills
        career_data rewritten_data input_language output_language social_links_data
        = Inr response
    \<and> final_cv parsed_data_dict rewritten_data skills social_links_data = Inr fc
    \<and> career_recommendation career_data = Inr cr
    \<and> quality_report quality_data = Inr q
    \<and> ats_compliance ats_data = Inr ac
    \<and> lookup response ''final_cv'' = Some fc
    \<and> lookup response ''career_recommendation'' = Some cr
    \<and> lookup response ''quality_report'' = Some q
    \<and> lookup response ''ats_compliance'' = Some ac"
proof -
  from wt have dicts: "is_dict parsed_data_dict" "is_dict quality_data" "is_dict ats_data"
      "is_dict career_data" "is_dict rewritten_data"
    and scores: "score_ok (lookup ats_data ''overall_score'')"
      "score_ok (lookup rewritten_data ''estimated_new_ats_score'')"
    and skills_ok: "hashables_ok (lookup parsed_data_dict ''skills'')"
      "list_all py_hashable (elements suggested_skills)"
    and exp_ok: "list_ok (lookup rewritten_data ''rewritten_experience'')"
    and checks: "checks_ok (lookup ats_data ''passed_checks'')"
      "checks_ok (lookup ats_data ''failed_checks'')"
    by (simp_all add: outputs_well_typed_def)
  define original_ats where "original_ats = read_or ats_data ''overall_score'' (JInt 0)"
  have original: "py_get ats_data ''overall_score'' (JInt 0) = Inr original_ats"
    using dicts(3) by (simp add: py_get_read_or original_ats_def)
  obtain b where b: "py_num original_ats = Some b"
    using score_ok_read_or [OF scores(1), of "JInt 0" 0 ] by (auto simp: original_ats_def)
  have plus: "py_add original_ats (JInt 10) = Inr (JInt (b + 10))"
    using b by (simp add: py_add_num)
  define improved_ats where
    "improved_ats = read_or rewritten_data ''estimated_new_ats_score'' (JInt (b + 10))"
  have improved: "get_estimated rewritten_data (py_add original_ats (JInt 10)) = Inr improved_ats"
    unfolding plus get_estimated_eq_Inr using dicts(5) by (simp add: improved_ats_def)
  obtain a where a: "py_num improved_ats = Some a"
    using score_ok_read_or [OF scores(2), of "JInt (b + 10)" "b + 10"]
    by (auto simp: improved_ats_def)
  obtain skills where skills:
    "combined_skills set_order parsed_data_dict suggested_skills = Inr skills"
    using combined_skills_returns [OF dicts(1) skills_ok] by blast
  obtain improvements where made:
    "improvements_made rewritten_data suggested_skills original_ats improved_ats
       input_language output_language = Inr improvements"
    using improvements_made_returns [OF dicts(5) exp_ok a b] by blast
  obtain fc where fc: "final_cv parsed_data_dict rewritten_data skills social_links_data = Inr fc"
    using final_cv_fields [OF dicts(1) dicts(5)] by blast
  obtain cr where cr: "career_recommendation career_data = Inr cr"
    using career_recommendation_fields [OF dicts(4)] by blast
  obtain q where q: "quality_report quality_data = Inr q"
    using quality_report_fields [OF dicts(2)] by blast
  obtain ac where ac: "ats_compliance ats_data = Inr ac"
    using ats_compliance_fields [OF dicts(3) checks] by blast
  obtain isum where isum: "improvements_summary original_ats improved_ats improvements
      input_language output_language = Inr isum"
    by (simp add: improvements_summary_value)
  obtain inotes where inotes: "improvement_notes rewritten_data ats_data = Inr inotes"
    by (simp add: improvement_notes_value [OF original improved a])
  have run: "assemble_response set_order parsed_data_dict quality_data ats_data suggested_skills
        career_data rewritten_data input_language output_language social_links_data
      = Inr (JDict [(''final_cv'', fc), (''career_recommendation'', cr),
           (''improvements_summary'', isum), (''improvement_notes'', inotes),
           (''quality_report'', q), (''ats_compliance'', ac)])"
    unfolding assemble_response_def original and_then_Inr improved skills made
      fc cr isum inotes q ac py_dict_def dict_display.simps
    by (rule refl)
  show ?thesis
    using fc cr q ac unfolding run by auto
qed


lemma field_of_block: "lookup response k1 = Some d \<Longrightarrow> field response k1 k2 = lookup d k2"
  by (simp add: field_def)

text \<open>
  C3 (as the code has it). When every stage output is a mapping and every field that is
  present has the type the code uses it at, the response is produced, whatever fields
  are missing, and every read of a missing field gives its default: 0 for the scores and
  the confidence, the empty list for lists, the empty string for strings, with two
  exceptions: a missing \<open>recommended_career\<close> reads as \<open>Unknown\<close>, and a missing
  \<open>estimated_new_ats_score\<close> reads as the ATS score plus 10. The four contact fields also
  turn a null or empty value into the empty string. Each check record is rebuilt with
  the same defaults.
\<close>

theorem assemble_response_defaults:
  assumes wt: "outputs_well_typed parsed_data_dict quality_data ats_data suggested_skills
      career_data rewritten_data"
  shows "\<exists>response b.
      assemble_response set_order parsed_data_dict quality_data ats_data suggested_skills
        career_data rewritten_data input_language output_language social_links_data
        = Inr response
    \<and> field response ''final_cv'' ''name''
        = Some (py_or (read_or parsed_data_dict ''name'' JNull) (JStr []))
    \<and> field response ''final_cv'' ''email''
        = Some (py_or (read_or parsed_data_dict ''email'' JNull) (JStr []))
    \<and> field response ''final_cv'' ''phone''
        = Some (py_or (read_or parsed_data_dict ''phone'' JNull) (JStr []))
    \<and> field response ''final_cv'' ''address''
        = Some (py_or (read_or parsed_data_dict ''address'' JNull) (JStr []))
    \<and> field response ''final_cv'' ''summary''
        = Some (read_or rewritten_data ''rewritten_summary'' (JStr []))
    \<and> field response ''final_cv'' ''experience''
        = Some (read_or rewritten_data ''rewritten_experience'' (JList []))
    \<and> field response ''final_cv'' ''education''
        = Some (read_or parsed_data_dict ''education'' (JList []))
    \<and> field response ''final_cv'' ''projects''
        = Some (read_or parsed_data_dict ''projects'' (JList []))
    \<and> field response ''final_cv'' ''languages''
        = Some (read_or parsed_data_dict ''languages'' (JList []))
    \<and> field response ''final_cv'' ''hobbies''
        = Some (read_or parsed_data_dict ''hobbies'' (JList []))
    \<and> field response ''career_recommendation'' ''recommended_career''
        = Some (read_or career_data ''recommended_career'' (JStr ''Unknown''))
    \<and> field response ''career_recommendation'' ''confidence''
        = Some (read_or career_data ''confidence'' (JInt 0))
    \<and> field response ''career_recommendation'' ''reasoning''
        = Some (read_or career_data ''reasoning'' (JStr []))
    \<and> field response ''career_recommendation'' ''alternative_careers''
        = Some (read_or career_data ''alternative_careers'' (JList []))
    \<and> field response ''improvements_summary'' ''ats_score_before''
        = Some (read_or ats_data ''overall_score'' (JInt 0))
    \<and> py_num (read_or ats_data ''overall_score'' (JInt 0)) = Some b
    \<and> field response ''improvements_summary'' ''ats_score_after''
        = Some (read_or rewritten_data ''estimated_new_ats_score'' (JInt (b + 10)))
    \<and> field response ''quality_report'' ''overall_score''
        = Some (read_or quality_data ''overall_score'' (JInt 0))
    \<and> field response ''quality_report'' ''strengths''
        = Some (read_or quality_data ''strengths'' (JList []))
    \<and> field response ''quality_report'' ''weaknesses''
        = Some (read_or quality_data ''weaknesses'' (JList []))
    \<and> field response ''quality_report'' ''suggestions''
        = Some (read_or quality_data ''suggestions'' (JList []))
    \<and> field response ''ats_compliance'' ''overall_score''
        = Some (read_or ats_data ''overall_score'' (JInt 0))
    \<and> field response ''ats_compliance'' ''passed_checks''
        = Some (JList (map check_defaults
                   (elements (read_or ats_data ''passed_checks'' (JList [])))))
    \<and> field response ''ats_compliance'' ''failed_checks''
        = Some (JList (map check_defaults
                   (elements (read_or ats_data ''failed_checks'' (JList [])))))
    \<and> field response ''ats_compliance'' ''critical_issues''
        = Some (read_or ats_data ''critical_issues'' (JList []))
    \<and> field response ''ats_compliance'' ''recommendations''
        = Some (read_or ats_data ''recommendations'' (JList []))"
proof -
  from wt have dicts: "is_dict parsed_data_dict" "is_dict quality_data" "is_dict ats_data"
      "is_dict career_data" "is_dict rewritten_data"
    and checks: "checks_ok (lookup ats_data ''passed_checks'')"
      "checks_ok (lookup ats_data ''failed_checks'')"
    by (simp_all add: outputs_well_typed_def)
  from assemble_response_returns [OF wt, of set_order input_language output_language
      social_links_data]
  obtain response skills fc cr q ac where
    run: "assemble_response set_order parsed_data_dict quality_data ats_data suggested_skills
        career_data rewritten_data input_language output_language social_links_data
        = Inr response"
    and fc: "final_cv parsed_data_dict rewritten_data skills social_links_data = Inr fc"
    and cr: "career_recommendation career_data = Inr cr"
    and q: "quality_report quality_data = Inr q"
    and ac: "ats_compliance ats_data = Inr ac"
    and blocks: "lookup response ''final_cv'' = Some fc"
      "lookup response ''career_recommendation'' = Some cr"
      "lookup response ''quality_report'' = Some q"
      "lookup response ''ats_compliance'' = Some ac"
    by blast
  note f1 = final_cv_fields [OF dicts(1) dicts(5), of skills social_links_data,
      unfolded fc, simplified, folded field_of_block [OF blocks(1)]]
  note f2 = career_recommendation_fields [OF dicts(4), unfolded cr, simplified,
      folded field_of_block [OF blocks(2)]]
  note f3 = quality_report_fields [OF dicts(2), unfolded q, simplified,
      folded field_of_block [OF blocks(3)]]
  note f4 = ats_compliance_fields [OF dicts(3) checks, unfolded ac, simplified,
      folded field_of_block [OF blocks(4)]]
  from assemble_response_scores [OF run] obtain original_ats b where
    original: "py_get ats_data ''overall_score'' (JInt 0) = Inr original_ats"
    and b: "py_num original_ats = Some b"
    and before: "field response ''improvements_summary'' ''ats_score_before'' = Some original_ats"
    and after: "field response ''improvements_summary'' ''ats_score_after''
        = Some (read_or rewritten_data ''estimated_new_ats_score'' (JInt (b + 10)))"
    by blast
  have o: "original_ats = read_or ats_data ''overall_score'' (JInt 0)"
    using original dicts(3) by (simp add: py_get_read_or)
  show ?thesis
    using run f1 f2 f3 f4 before after b unfolding o by blast
qed

text \<open>
  C5. In every response the assembly produces, \<open>ats_score_before\<close> and \<open>ats_score_after\<close>
  are numbers, \<open>ats_score_after\<close> is the rewrite stage's \<open>estimated_new_ats_score\<close> when
  that key is present and \<open>ats_score_before + 10\<close> when it is not, and \<open>gap_to_target\<close> is
  \<open>max(0, 90 - ats_score_after)\<close>, which is never negative.
\<close>

theorem ats_score_after_and_gap:
  assumes "assemble_response set_order parsed_data_dict quality_data ats_data suggested_skills
      career_data rewritten_data input_language output_language social_links_data = Inr response"
  shows "\<exists>before after b a.
      field response ''improvements_summary'' ''ats_score_before'' = Some before
    \<and> py_num before = Some b
    \<and> field response ''improvements_summary'' ''ats_score_after'' = Some after
    \<and> py_num after = Some a
    \<and> after = (case lookup rewritten_data ''estimated_new_ats_score'' of
                  Some estimated \<Rightarrow> estimated
                | None \<Rightarrow> JInt (b + 10))
    \<and> field response ''improvement_notes'' ''gap_to_target'' = Some (JInt (max 0 (90 - a)))
    \<and> 0 \<le> max 0 (90 - a)"
proof -
  from assemble_response_scores [OF assms] obtain original_ats improved_ats b a where
    f: "py_num original_ats = Some b"
      "improved_ats = read_or rewritten_data ''estimated_new_ats_score'' (JInt (b + 10))"
      "py_num improved_ats = Some a"
      "field response ''improvements_summary'' ''ats_score_before'' = Some original_ats"
      "field response ''improvements_summary'' ''ats_score_after'' = Some improved_ats"
      "field response ''improvement_notes'' ''gap_to_target'' = Some (JInt (max 0 (90 - a)))"
    by blast
  have "0 \<le> max 0 (90 - a)" by simp
  with f show ?thesis unfolding read_or_def by blast
qed

text \<open>
  C9. In every response the assembly produces, the two score blocks agree:
  \<open>improvement_notes.original_ats_score\<close> is \<open>improvements_summary.ats_score_before\<close>,
  \<open>improvement_notes.improved_ats_score\<close> is \<open>improvements_summary.ats_score_after\<close>, and
  \<open>improvement_notes.gap_to_target\<close> is \<open>max(0, 90 - ats_score_after)\<close>, although the
  notes block reads the stage outputs again with its own defaults.
\<close>

theorem score_blocks_agree:
  assumes "assemble_response set_order parsed_data_dict quality_data ats_data suggested_skills
      career_data rewritten_data input_language output_language social_links_data = Inr response"
  shows "\<exists>before after a.
      field response ''improvements_summary'' ''ats_score_before'' = Some before
    \<and> field response ''improvement_notes'' ''original_ats_score'' = Some before
    \<and> field response ''improvements_summary'' ''ats_score_after'' = Some after
    \<and> field response ''improvement_notes'' ''improved_ats_score'' = Some after
    \<and> py_num after = Some a
    \<and> field response ''improvement_notes'' ''gap_to_target'' = Some (JInt (max 0 (90 - a)))"
  using assemble_response_scores [OF assms] by blast

lemma well_typed_example:
  "outputs_well_typed
     (JDict [(''name'', JStr ''John Doe''), (''email'', JNull), (''skills'', JList [JStr ''Python''])])
     (JDict [(''strengths'', JList [JStr ''Clear layout''])])
     (JDict [(''overall_score'', JInt 62)])
     (JList [JStr ''Docker''])
     (JDict [])
     (JDict [(''estimated_new_ats_score'', JInt est)])"
  by (simp add: outputs_well_typed_def score_ok_def list_ok_def hashables_ok_def checks_ok_def)

lemma well_typed_omitted:
  "outputs_well_typed
     (JDict [(''name'', JStr ''John Doe''), (''email'', JNull), (''skills'', JList [JStr ''Python''])])
     (JDict [(''strengths'', JList [JStr ''Clear layout''])])
     (JDict [(''overall_score'', JInt 62)])
     (JList [JStr ''Docker''])
     (JDict [])
     (JDict [(''rewritten_summary'', JStr ''Entwickler'')])"
  by (simp add: outputs_well_typed_def score_ok_def list_ok_def hashables_ok_def checks_ok_def)

theorem assemble_response_defaults_witness:
  "outputs_well_typed
     (JDict [(''name'', JStr ''John Doe''), (''email'', JNull), (''skills'', JList [JStr ''Python''])])
     (JDict [(''strengths'', JList [JStr ''Clear layout''])])
     (JDict [(''overall_score'', JInt 62)])
     (JList [JStr ''Docker''])
     (JDict [])
     (JDict [(''rewritten_summary'', JStr ''Entwickler'')])
   \<and> response_field
       (assemble_response (\<lambda>xs. xs)
         (JDict [(''name'', JStr ''John Doe''), (''email'', JNull), (''skills'', JList [JStr ''Python''])])
         (JDict [(''strengths'', JList [JStr ''Clear layout''])])
         (JDict [(''overall_score'', JInt 62)])
         (JList [JStr ''Docker''])
         (JDict [])
         (JDict [(''rewritten_summary'', JStr ''Entwickler'')])
         ''en'' ''de'' [])
       ''quality_report'' ''overall_score'' = Some (JInt 0)
   \<and> response_field
       (assemble_response (\<lambda>xs. xs)
         (JDict [(''name'', JStr ''John Doe''), (''email'', JNull), (''skills'', JList [JStr ''Python''])])
         (JDict [(''strengths'', JList [JStr ''Clear layout''])])
         (JDict [(''overall_score'', JInt 62)])
         (JList [JStr ''Docker''])
         (JDict [])
         (JDict [(''rewritten_summary'', JStr ''Entwickler'')])
         ''en'' ''de'' [])
       ''final_cv'' ''email'' = Some (JStr [])
   \<and> response_field
       (assemble_response (\<lambda>xs. xs)
         (JDict [(''name'', JStr ''John Doe''), (''email'', JNull), (''skills'', JList [JStr ''Python''])])
         (JDict [(''strengths'', JList [JStr ''Clear layout''])])
         (JDict [(''overall_score'', JInt 62)])
         (JList [JStr ''Docker''])
         (JDict [])
         (JDict [(''rewritten_summary'', JStr ''Entwickler'')])
         ''en'' ''de'' [])
       ''improvements_summary'' ''ats_score_after'' = Some (JInt 72)"
  using well_typed_omitted
    assemble_response_defaults [OF well_typed_omitted, of "\<lambda>xs. xs" "''en''" "''de''" "[]"]
  by (clarsimp simp: response_field_def read_or_def py_or_def)

text \<open>
  C3 as stated fails for one string field: when the career stage omits
  \<open>recommended_career\<close>, the response carries \<open>Unknown\<close>, not the empty string.
\<close>

theorem absent_recommended_career_is_unknown:
  "response_field
     (assemble_response (\<lambda>xs. xs) (JDict []) (JDict []) (JDict []) (JList []) (JDict [])
        (JDict []) ''en'' ''en'' [])
     ''career_recommendation'' ''recommended_career'' = Some (JStr ''Unknown'')
   \<and> response_field
     (assemble_response (\<lambda>xs. xs) (JDict []) (JDict []) (JDict []) (JList []) (JDict [])
        (JDict []) ''en'' ''en'' [])
     ''career_recommendation'' ''recommended_career'' \<noteq> Some (JStr [])"
proof -
  have wt: "outputs_well_typed (JDict []) (JDict []) (JDict []) (JList []) (JDict []) (JDict [])"
    by (simp add: outputs_well_typed_def score_ok_def list_ok_def hashables_ok_def checks_ok_def)
  from assemble_response_returns [OF wt, of "\<lambda>xs. xs" "''en''" "''en''" "[]"]
  obtain response cr where
    run: "assemble_response (\<lambda>xs. xs) (JDict []) (JDict []) (JDict []) (JList []) (JDict [])
        (JDict []) ''en'' ''en'' [] = Inr response"
    and cr: "career_recommendation (JDict []) = Inr cr"
    and block: "lookup response ''career_recommendation'' = Some cr"
    by blast
  have "lookup cr ''recommended_career'' = Some (JStr ''Unknown'')"
    using career_recommendation_fields [of "JDict []"] cr by (simp add: read_or_def)
  then have "field response ''career_recommendation'' ''recommended_career''
      = Some (JStr ''Unknown'')"
    by (simp add: field_of_block [OF block])
  then show ?thesis by (simp add: response_field_def run)
qed

theorem ats_score_after_and_gap_witness:
  "response_field
       (assemble_response (\<lambda>xs. xs)
         (JDict [(''name'', JStr ''John Doe''), (''email'', JNull), (''skills'', JList [JStr ''Python''])])
         (JDict [(''strengths'', JList [JStr ''Clear layout''])])
         (JDict [(''overall_score'', JInt 62)])
         (JList [JStr ''Docker''])
         (JDict [])
         (JDict [(''estimated_new_ats_score'', JInt 95)])
         ''en'' ''de'' [])
       ''improvement_notes'' ''gap_to_target'' = Some (JInt 0)
   \<and> response_field
       (assemble_response (\<lambda>xs. xs)
         (JDict [(''name'', JStr ''John Doe''), (''email'', JNull), (''skills'', JList [JStr ''Python''])])
         (JDict [(''strengths'', JList [JStr ''Clear layout''])])
         (JDict [(''overall_score'', JInt 62)])
         (JList [JStr ''Docker''])
         (JDict [])
         (JDict [(''estimated_new_ats_score'', JInt 70)])
         ''en'' ''de'' [])
       ''improvement_notes'' ''gap_to_target'' = Some (JInt 20)
   \<and> response_field
       (assemble_response (\<lambda>xs. xs)
         (JDict [(''name'', JStr ''John Doe''), (''email'', JNull), (''skills'', JList [JStr ''Python''])])
         (JDict [(''strengths'', JList [JStr ''Clear layout''])])
         (JDict [(''overall_score'', JInt 62)])
         (JList [JStr ''Docker''])
         (JDict [])
         (JDict [(''rewritten_summary'', JStr ''Entwickler'')])
         ''en'' ''de'' [])
       ''improvements_summary'' ''ats_score_after'' = Some (JInt 72)"
proof -
  from assemble_response_returns [OF well_typed_example [of 95], of "\<lambda>xs. xs" "''en''" "''de''" "[]"]
  obtain r1 where r1: "assemble_response (\<lambda>xs. xs)
         (JDict [(''name'', JStr ''John Doe''), (''email'', JNull), (''skills'', JList [JStr ''Python''])])
         (JDict [(''strengths'', JList [JStr ''Clear layout''])])
         (JDict [(''overall_score'', JInt 62)])
         (JList [JStr ''Docker''])
         (JDict [])
         (JDict [(''estimated_new_ats_score'', JInt 95)])
         ''en'' ''de'' [] = Inr r1" by blast
  from assemble_response_returns [OF well_typed_example [of 70], of "\<lambda>xs. xs" "''en''" "''de''" "[]"]
  obtain r2 where r2: "assemble_response (\<lambda>xs. xs)
         (JDict [(''name'', JStr ''John Doe''), (''email'', JNull), (''skills'', JList [JStr ''Python''])])
         (JDict [(''strengths'', JList [JStr ''Clear layout''])])
         (JDict [(''overall_score'', JInt 62)])
         (JList [JStr ''Docker''])
         (JDict [])
         (JDict [(''estimated_new_ats_score'', JInt 70)])
         ''en'' ''de'' [] = Inr r2" by blast
  from assemble_response_returns [OF well_typed_omitted, of "\<lambda>xs. xs" "''en''" "''de''" "[]"]
  obtain r3 where r3: "assemble_response (\<lambda>xs. xs)
         (JDict [(''name'', JStr ''John Doe''), (''email'', JNull), (''skills'', JList [JStr ''Python''])])
         (JDict [(''strengths'', JList [JStr ''Clear layout''])])
         (JDict [(''overall_score'', JInt 62)])
         (JList [JStr ''Docker''])
         (JDict [])
         (JDict [(''rewritten_summary'', JStr ''Entwickler'')])
         ''en'' ''de'' [] = Inr r3" by blast
  have g1: "field r1 ''improvement_notes'' ''gap_to_target'' = Some (JInt 0)"
    using ats_score_after_and_gap [OF r1] by auto
  have g2: "field r2 ''improvement_notes'' ''gap_to_target'' = Some (JInt 20)"
    using ats_score_after_and_gap [OF r2] by auto
  have a3: "field r3 ''improvements_summary'' ''ats_score_after'' = Some (JInt 72)"
    using ats_score_after_and_gap [OF r3] assemble_response_scores [OF r3] by auto
  show ?thesis by (simp add: response_field_def r1 r2 r3 g1 g2 a3)
qed

theorem score_blocks_agree_witness:
  "response_field
       (assemble_response (\<lambda>xs. xs)
         (JDict [(''name'', JStr ''John Doe''), (''email'', JNull), (''skills'', JList [JStr ''Python''])])
         (JDict [(''strengths'', JList [JStr ''Clear layout''])])
         (JDict [(''overall_score'', JInt 62)])
         (JList [JStr ''Docker''])
         (JDict [])
         (JDict [(''estimated_new_ats_score'', JInt 81)])
         ''en'' ''de'' [])
       ''improvement_notes'' ''original_ats_score'' = Some (JInt 62)
   \<and> response_field
       (assemble_response (\<lambda>xs. xs)
         (JDict [(''name'', JStr ''John Doe''), (''email'', JNull), (''skills'', JList [JStr ''Python''])])
         (JDict [(''strengths'', JList [JStr ''Clear layout''])])
         (JDict [(''overall_score'', JInt 62)])
         (JList [JStr ''Docker''])
         (JDict [])
         (JDict [(''estimated_new_ats_score'', JInt 81)])
         ''en'' ''de'' [])
       ''improvement_notes'' ''improved_ats_score'' = Some (JInt 81)
   \<and> response_field
       (assemble_response (\<lambda>xs. xs)
         (JDict [(''name'', JStr ''John Doe''), (''email'', JNull), (''skills'', JList [JStr ''Python''])])
         (JDict [(''strengths'', JList [JStr ''Clear layout''])])
         (JDict [(''overall_score'', JInt 62)])
         (JList [JStr ''Docker''])
         (JDict [])
         (JDict [(''estimated_new_ats_score'', JInt 81)])
         ''en'' ''de'' [])
       ''improvement_notes'' ''gap_to_target'' = Some (JInt 9)"
proof -
  from assemble_response_returns [OF well_typed_example [of 81], of "\<lambda>xs. xs" "''en''" "''de''" "[]"]
  obtain r where r: "assemble_response (\<lambda>xs. xs)
         (JDict [(''name'', JStr ''John Doe''), (''email'', JNull), (''skills'', JList [JStr ''Python''])])
         (JDict [(''strengths'', JList [JStr ''Clear layout''])])
         (JDict [(''overall_score'', JInt 62)])
         (JList [JStr ''Docker''])
         (JDict [])
         (JDict [(''estimated_new_ats_score'', JInt 81)])
         ''en'' ''de'' [] = Inr r" by blast
  have before: "field r ''improvements_summary'' ''ats_score_before'' = Some (JInt 62)"
    and after: "field r ''improvements_summary'' ''ats_score_after'' = Some (JInt 81)"
    using assemble_response_scores [OF r] by (auto simp: read_or_def)
  have "field r ''improvement_notes'' ''original_ats_score'' = Some (JInt 62)
      \<and> field r ''improvement_notes'' ''improved_ats_score'' = Some (JInt 81)
      \<and> field r ''improvement_notes'' ''gap_to_target'' = Some (JInt 9)"
    using score_blocks_agree [OF r] before after by auto
  then show ?thesis by (simp add: response_field_def r)
qed

end
